theory Spec2Isabelle
  imports Complex_Main "HOL-Library.Multiset" "HOL-Library.Char_ord" "HOL-Library.List_Lexorder"
begin

section \<open>Music streaming analytics: feature aggregator, funnel engine, experiment evaluator\<close>

text \<open>
  The Python sources work on pandas tables. A table is modelled as the list of its rows,
  a row as a record of the columns the modelled code reads. Python floats are modelled
  as exact reals, and with the rounding of doubles where a result depends on it (the
  split index of the random assignment); Python ints as \<open>int\<close> or \<open>nat\<close> (counts). A timestamp is the number
  of seconds since the epoch; its calendar date is the day number \<open>t div 86400\<close> and its
  hour of day is \<open>(t mod 86400) div 3600\<close>.
\<close>

subsection \<open>Listening streaks (\<open>feature_engineering.py\<close>, \<open>_create_listening_streak_features\<close>)\<close>

record streak_features =
  current_streak :: nat
  max_streak :: nat
  avg_streak :: real
  streak_count :: nat
  active_days :: nat
  active_days_ratio :: real

text \<open>\<open>sorted(row['date'])\<close>, where \<open>row['date']\<close> is the set of a user's dates.\<close>

definition sorted_dates :: "int list \<Rightarrow> int list" where
  "sorted_dates ds = sort (remdups ds)"

text \<open>
  The loop \<open>for i in range(1, len(dates))\<close>: \<open>prev\<close> is \<open>dates[i-1]\<close>, the list holds
  \<open>dates[i:]\<close>, \<open>cur\<close> is \<open>current_streak\<close> and \<open>streaks\<close> the list built so far.
\<close>

fun streak_loop :: "int \<Rightarrow> int list \<Rightarrow> nat \<Rightarrow> nat list \<Rightarrow> nat list \<times> nat" where
  "streak_loop prev [] cur streaks = (streaks, cur)"
| "streak_loop prev (d # ds) cur streaks =
     (if d - prev = 1 then streak_loop d ds (cur + 1) streaks
      else streak_loop d ds 1 (streaks @ [cur]))"

text \<open>The list \<open>streaks\<close> after the final \<open>streaks.append(current_streak)\<close>.\<close>

definition compute_streaks :: "int list \<Rightarrow> nat list" where
  "compute_streaks dates =
     (case dates of
        [] \<Rightarrow> []
      | d # ds \<Rightarrow> (case streak_loop d ds 1 [] of (streaks, cur) \<Rightarrow> streaks @ [cur]))"

text \<open>Python's \<open>max\<close> and \<open>min\<close> of a non-empty list.\<close>

definition py_max :: "'a::linorder list \<Rightarrow> 'a" where
  "py_max xs = fold max (tl xs) (hd xs)"

definition py_min :: "'a::linorder list \<Rightarrow> 'a" where
  "py_min xs = fold min (tl xs) (hd xs)"

definition np_mean :: "nat list \<Rightarrow> real" where
  "np_mean xs = real (sum_list xs) / real (length xs)"

text \<open>The body of the loop over \<open>user_dates.iterrows()\<close> for one user's dates.\<close>

definition user_streak_features :: "int list \<Rightarrow> streak_features" where
  "user_streak_features user_dates =
     (let dates = sorted_dates user_dates in
      if length dates = 0 then
        \<lparr>current_streak = 0, max_streak = 0, avg_streak = 0,
         streak_count = 0, active_days = 0, active_days_ratio = 0\<rparr>
      else
        let streaks = compute_streaks dates;
            date_range = (py_max dates - py_min dates) + 1
        in \<lparr>current_streak = (if streaks \<noteq> [] then last streaks else 0),
            max_streak = (if streaks \<noteq> [] then py_max streaks else 0),
            avg_streak = (if streaks \<noteq> [] then np_mean streaks else 0),
            streak_count = length streaks,
            active_days = length dates,
            active_days_ratio =
              (if date_range > 0 then real (length dates) / real_of_int date_range else 0)\<rparr>)"

text \<open>
  The specification's notion: the maximal runs of a date list, a run being a stretch of
  dates each exactly one day after the one before it.
\<close>

fun runs :: "int list \<Rightarrow> int list list" where
  "runs [] = []"
| "runs [d] = [[d]]"
| "runs (d # e # ds) =
     (if e - d = 1 then (d # hd (runs (e # ds))) # tl (runs (e # ds))
      else [d] # runs (e # ds))"

subsection \<open>Double-precision arithmetic\<close>

text \<open>
  Python's \<open>float\<close> is an IEEE 754 double: every arithmetic operation returns the
  double nearest to the exact result, a tie going to the even significand. A double is
  modelled by the real number it stands for, and \<open>round_double\<close> is that rounding, for
  a significand of 53 bits (overflow and subnormal numbers are left out). Where a
  computation depends on the rounding, each operation of the source is wrapped in
  \<open>round_double\<close>; elsewhere floats are exact reals.
\<close>

definition round_half_even :: "real \<Rightarrow> int" where
  "round_half_even y =
     (if y - of_int \<lfloor>y\<rfloor> < 1 / 2 then \<lfloor>y\<rfloor>
      else if y - of_int \<lfloor>y\<rfloor> > 1 / 2 then \<lfloor>y\<rfloor> + 1
      else if even \<lfloor>y\<rfloor> then \<lfloor>y\<rfloor> else \<lfloor>y\<rfloor> + 1)"





subsection \<open>Experiment evaluator (\<open>ab_framework.py\<close>)\<close>

text \<open>
  \<open>scipy.stats.norm.ppf\<close> (the standard normal quantile function) and
  \<open>scipy.stats.ttest_ind(..., equal_var=False)\<close> (its p-value) are library functions;
  the model takes them as the parameters \<open>ppf\<close> and \<open>ttest_ind\<close>.
\<close>


datatype py_error = KeyError | ValueError

record experiment_config =
  cfg_name :: string
  cfg_description :: string
  control_name :: string
  treatment_name :: string
  cfg_significance_level :: real

record experiment_results =
  control_mean :: real
  treatment_mean :: real
  control_std :: real
  treatment_std :: real
  control_n :: nat
  treatment_n :: nat
  absolute_effect :: real
  relative_effect :: real
  p_value :: real
  confidence_interval :: "real \<times> real"
  is_significant :: bool
  power_r :: real
  effect_size :: real

text \<open>
  The framework object: \<open>self.significance_level\<close> and the three dictionaries keyed by
  experiment name. An assignment table is the list of its rows \<open>(user_id, variant)\<close>.
\<close>

record ab_test_framework =
  significance_level :: real
  experiments :: "string \<rightharpoonup> experiment_config"
  assignments :: "string \<rightharpoonup> (string \<times> string) list"
  results :: "string \<rightharpoonup> experiment_results"

definition ab_init :: "real \<Rightarrow> ab_test_framework" where
  "ab_init sl = \<lparr>significance_level = sl, experiments = Map.empty,
                  assignments = Map.empty, results = Map.empty\<rparr>"

text \<open>Python's \<open>int(x)\<close> of a float: truncation towards zero.\<close>

definition py_int :: "real \<Rightarrow> int" where
  "py_int x = (if 0 \<le> x then \<lfloor>x\<rfloor> else \<lceil>x\<rceil>)"

definition calculate_sample_size ::
  "(real \<Rightarrow> real) \<Rightarrow> ab_test_framework \<Rightarrow> real \<Rightarrow> real \<Rightarrow> real \<Rightarrow> int" where
  "calculate_sample_size ppf self baseline_rate mde pw =
     (let treatment_rate = baseline_rate * (1 + mde);
          pooled_rate = (baseline_rate + treatment_rate) / 2;
          z_alpha = ppf (1 - significance_level self / 2);
          z_beta = ppf pw;
          effect = \<bar>treatment_rate - baseline_rate\<bar>;
          variance = 2 * pooled_rate * (1 - pooled_rate)
      in if effect = 0 then 10000
         else py_int (of_int \<lceil>variance * ((z_alpha + z_beta) ^ 2) / (effect ^ 2)\<rceil>))"











subsection \<open>Input tables\<close>

text \<open>
  A sessions row; the type parameter is the type of a \<open>timestamp\<close> cell. The column
  \<open>context\<close> is the field \<open>context_col\<close>.
\<close>

record 't session =
  session_id :: string
  user_id :: string
  track_id :: string
  timestamp :: 't
  listen_duration_ms :: int
  track_duration_ms :: int
  skipped :: bool
  context_col :: string
  device :: string

record user =
  u_user_id :: string
  signup_date :: int
  tier :: string
  country :: string
  age_group :: string

record track =
  t_track_id :: string
  tempo :: real
  energy :: real
  danceability :: real
  valence :: real
  acousticness :: real
  genre :: "string option"
  duration_ms :: int

text \<open>
  \<open>df.groupby(key)\<close>: the groups in ascending key order, each with its rows in table
  order. \<open>Series.nunique()\<close> counts the distinct values.
\<close>

definition groupby :: "('r \<Rightarrow> 'k::linorder) \<Rightarrow> 'r list \<Rightarrow> ('k \<times> 'r list) list" where
  "groupby key rows =
     map (\<lambda>k. (k, filter (\<lambda>r. key r = k) rows)) (sort (remdups (map key rows)))"

definition nunique :: "'a list \<Rightarrow> nat" where
  "nunique xs = length (remdups xs)"

text \<open>The number of rows of a boolean column that are true: \<open>(cond).sum()\<close>.\<close>

definition count_where :: "('r \<Rightarrow> bool) \<Rightarrow> 'r list \<Rightarrow> int" where
  "count_where P rows = int (length (filter P rows))"

subsection \<open>Calendar: \<open>.dt.date\<close>, \<open>.dt.hour\<close>, \<open>.dt.dayofweek\<close>, \<open>.dt.isocalendar().week\<close>\<close>

definition date_of :: "int \<Rightarrow> int" where
  "date_of t = t div 86400"

definition hour_of :: "int \<Rightarrow> int" where
  "hour_of t = (t mod 86400) div 3600"

text \<open>Day 0 (1970-01-01) is a Thursday; Monday is 0.\<close>

definition dayofweek :: "int \<Rightarrow> int" where
  "dayofweek t = (date_of t + 3) mod 7"

text \<open>The Gregorian year of a day number, and the day number of a civil date.\<close>

definition year_of_day :: "int \<Rightarrow> int" where
  "year_of_day d =
     (let z = d + 719468;
          era = z div 146097;
          doe = z - era * 146097;
          yoe = (doe - doe div 1460 + doe div 36524 - doe div 146096) div 365;
          doy = doe - (365 * yoe + yoe div 4 - yoe div 100);
          mp = (5 * doy + 2) div 153;
          m = (if mp < 10 then mp + 3 else mp - 9)
      in (if m \<le> 2 then yoe + era * 400 + 1 else yoe + era * 400))"

definition days_from_civil :: "int \<Rightarrow> int \<Rightarrow> int \<Rightarrow> int" where
  "days_from_civil y m d =
     (let y' = (if m \<le> 2 then y - 1 else y);
          era = y' div 400;
          yoe = y' - era * 400;
          doy = (153 * (if m > 2 then m - 3 else m + 9) + 2) div 5 + d - 1;
          doe = yoe * 365 + yoe div 4 - yoe div 100 + doy
      in era * 146097 + doe - 719468)"

text \<open>
  The ISO week number of a timestamp: the week of the Thursday of its Monday-based
  week, counted within that Thursday's year.
\<close>

definition iso_week :: "int \<Rightarrow> int" where
  "iso_week t =
     (let thursday = date_of t - dayofweek t + 3;
          jan1 = days_from_civil (year_of_day thursday) 1 1
      in (thursday - jan1) div 7 + 1)"

subsection \<open>Funnel engine (\<open>funnel_analysis.py\<close>)\<close>

record funnel_stage =
  stage_name :: string
  users :: int
  conversion_rate :: real
  drop_off_rate :: real

text \<open>
  The analyzer object. \<open>funnel_data\<close> is the data frame with one row per stage and the
  same four columns, \<open>None\<close> before the first analysis.
\<close>

record funnel_analyzer =
  funnel_stages :: "funnel_stage list"
  funnel_data :: "funnel_stage list option"

definition funnel_init :: funnel_analyzer where
  "funnel_init = \<lparr>funnel_stages = [], funnel_data = None\<rparr>"

text \<open>
  The loop \<open>for name, users in stages\<close> shared by both analyses: \<open>total_users\<close> is the
  count of the first stage (\<open>total_starts\<close> in the playlist funnel), \<open>prev_users\<close> the count of the stage before, and the result the
  stages appended from here on.
\<close>

fun build_stages :: "int \<Rightarrow> int \<Rightarrow> (string \<times> int) list \<Rightarrow> funnel_stage list" where
  "build_stages total_users prev_users [] = []"
| "build_stages total_users prev_users ((nm, n) # stages) =
     \<lparr>stage_name = nm, users = n,
      conversion_rate =
        (if total_users > 0 then real_of_int n / real_of_int total_users else 0),
      drop_off_rate =
        (if prev_users > 0 then real_of_int (prev_users - n) / real_of_int prev_users else 0)\<rparr>
     # build_stages total_users n stages"

text \<open>\<open>_find_biggest_drop_off\<close>: the loop over \<open>self.funnel_stages[1:]\<close>.\<close>

fun biggest_loop :: "funnel_stage list \<Rightarrow> real \<Rightarrow> string \<Rightarrow> string" where
  "biggest_loop [] max_drop max_stage = max_stage"
| "biggest_loop (stage # stages) max_drop max_stage =
     (if drop_off_rate stage > max_drop
      then biggest_loop stages (drop_off_rate stage) (stage_name stage)
      else biggest_loop stages max_drop max_stage)"

definition find_biggest_drop_off :: "funnel_analyzer \<Rightarrow> string" where
  "find_biggest_drop_off self =
     (if funnel_stages self = [] then ''unknown''
      else biggest_loop (drop 1 (funnel_stages self)) 0 ''unknown'')"

text \<open>
  The specification's wording of the same result: the name of the first stage, among the
  stages after the first, whose \<open>drop_off_rate\<close> is the largest.
\<close>

definition spec_biggest_drop_off :: "funnel_stage list \<Rightarrow> string option" where
  "spec_biggest_drop_off stages =
     map_option stage_name
       (find (\<lambda>s. drop_off_rate s = py_max (map drop_off_rate (drop 1 stages)))
             (drop 1 stages))"

text \<open>
  \<open>_simulate_playlist_progress\<close>. The function seeds numpy's generator with 42 and then
  draws \<open>np.random.geometric(p=0.15, size=n)\<close> and \<open>np.random.choice(values, size=n)\<close>;
  both arrays are functions of their arguments, the parameters \<open>np_geometric\<close> and
  \<open>np_choice\<close>.
\<close>

record progress_row =
  p_user_id :: string
  tracks_completed :: int
  playlist_length :: int
  completion_ratio :: real

definition clip :: "'a::linorder \<Rightarrow> 'a \<Rightarrow> 'a \<Rightarrow> 'a" where
  "clip lo hi x = min (max x lo) hi"

definition simulate_playlist_progress ::
  "(nat \<Rightarrow> int list) \<Rightarrow> (int list \<Rightarrow> nat \<Rightarrow> int list) \<Rightarrow> 't session list \<Rightarrow> int list
     \<Rightarrow> progress_row list" where
  "simulate_playlist_progress np_geometric np_choice sessions playlist_lengths =
     (let n_sessions = length sessions;
          avg_playlist_length =
            (if length playlist_lengths > 0
             then real_of_int (sum_list playlist_lengths) / real (length playlist_lengths)
             else 20);
          completed = map (clip 1 (py_int avg_playlist_length)) (np_geometric n_sessions);
          lengths = np_choice (if length playlist_lengths > 0 then playlist_lengths else [20])
                      n_sessions
      in map (\<lambda>(u, tc, pl).
                \<lparr>p_user_id = u, tracks_completed = tc, playlist_length = pl,
                 completion_ratio = clip 0 1 (real_of_int tc / real_of_int pl)\<rparr>)
             (zip (map user_id sessions) (zip completed lengths)))"

record playlist_metrics =
  total_playlist_starts :: int
  overall_completion_rate :: real
  track_1_completion :: real
  track_3_completion :: real
  track_5_completion :: real
  drop_off_track_1_3 :: real
  drop_off_track_3_5 :: real
  biggest_drop_off_stage :: string

text \<open>The seven stage counts of the playlist funnel, from the progress table.\<close>

definition playlist_stage_counts :: "progress_row list \<Rightarrow> (string \<times> int) list" where
  "playlist_stage_counts progress =
     [(''started'', int (length progress)),
      (''track_1_complete'', count_where (\<lambda>r. tracks_completed r \<ge> 1) progress),
      (''track_3_complete'', count_where (\<lambda>r. tracks_completed r \<ge> 3) progress),
      (''track_5_complete'', count_where (\<lambda>r. tracks_completed r \<ge> 5) progress),
      (''50_percent_complete'', count_where (\<lambda>r. completion_ratio r \<ge> 0.5) progress),
      (''75_percent_complete'', count_where (\<lambda>r. completion_ratio r \<ge> 0.75) progress),
      (''100_percent_complete'', count_where (\<lambda>r. completion_ratio r \<ge> 1.0) progress)]"

text \<open>
  \<open>analyze_playlist_completion\<close>. \<open>playlist_tracks\<close> is given by its \<open>playlist_id\<close>
  column. Without playlist sessions the function returns the empty dictionary (\<open>None\<close>)
  and leaves the analyzer as it was.
\<close>

definition analyze_playlist_completion ::
  "(nat \<Rightarrow> int list) \<Rightarrow> (int list \<Rightarrow> nat \<Rightarrow> int list) \<Rightarrow> funnel_analyzer
     \<Rightarrow> 't session list \<Rightarrow> string list \<Rightarrow> playlist_metrics option \<times> funnel_analyzer" where
  "analyze_playlist_completion np_geometric np_choice self sessions playlist_tracks =
     (let playlist_sessions = filter (\<lambda>s. context_col s = ''playlist'') sessions in
      if length playlist_sessions = 0 then (None, self)
      else
        let playlist_lengths = map (\<lambda>(p, rows). int (length rows)) (groupby (\<lambda>p. p) playlist_tracks);
            progress = simulate_playlist_progress np_geometric np_choice
                         playlist_sessions playlist_lengths;
            total_starts = int (length progress);
            stages = playlist_stage_counts progress;
            built = build_stages total_starts total_starts stages;
            self' = self\<lparr>funnel_stages := built, funnel_data := Some built\<rparr>;
            cnt = (\<lambda>i. snd (stages ! i));
            rate = (\<lambda>i. if total_starts > 0 then real_of_int (cnt i) / real_of_int total_starts
                          else 0)
        in (Some \<lparr>total_playlist_starts = total_starts,
                  overall_completion_rate = rate 6,
                  track_1_completion = rate 1,
                  track_3_completion = rate 2,
                  track_5_completion = rate 3,
                  drop_off_track_1_3 =
                    (if cnt 1 > 0 then real_of_int (cnt 1 - cnt 2) / real_of_int (cnt 1) else 0),
                  drop_off_track_3_5 =
                    (if cnt 2 > 0 then real_of_int (cnt 2 - cnt 3) / real_of_int (cnt 2) else 0),
                  biggest_drop_off_stage = find_biggest_drop_off self'\<rparr>,
            self'))"

record activation_metrics =
  total_signups :: int
  first_session_rate :: real
  day_1_activation_rate :: real
  week_1_retention_rate :: real
  week_2_retention_rate :: real
  weekly_active_rate :: real
  signup_to_active_conversion :: real

text \<open>
  The six stage counts of the activation funnel. Both tables hold timestamps already
  (the function converts copies of them otherwise). \<open>days_to_first\<close> is missing for a
  user without a session, and a missing value is not \<open>\<le> 1\<close>.
\<close>

definition sessions_within :: "int \<Rightarrow> int session list \<Rightarrow> nat" where
  "sessions_within days rows =
     length (filter (\<lambda>x. timestamp x \<le> py_min (map timestamp rows) + days * 86400) rows)"

definition activation_stage_counts :: "user list \<Rightarrow> int session list \<Rightarrow> (string \<times> int) list" where
  "activation_stage_counts users_df sessions =
     (let total_users = int (length users_df);
          users_with_sessions = int (nunique (map user_id sessions));
          by_user = groupby user_id sessions;
          first_session = map (\<lambda>(u, rows). (u, py_min (map timestamp rows))) by_user;
          users_first_session = map (\<lambda>u. (u, map_of first_session (u_user_id u))) users_df;
          activated_day_1 =
            count_where (\<lambda>(u, fs). case fs of None \<Rightarrow> False
                                    | Some f \<Rightarrow> (f - signup_date u) div 86400 \<le> 1)
              users_first_session;
          session_counts_7d = map (\<lambda>(u, rows). sessions_within 7 rows) by_user;
          activated_week_1 = count_where (\<lambda>c. c \<ge> 2) session_counts_7d;
          session_counts_14d = map (\<lambda>(u, rows). sessions_within 14 rows) by_user;
          retained_week_2 = count_where (\<lambda>c. c \<ge> 3) session_counts_14d;
          weeks_active = map (\<lambda>(u, rows). nunique (map (\<lambda>x. iso_week (timestamp x)) rows)) by_user;
          weekly_active = count_where (\<lambda>c. c \<ge> 4) weeks_active
      in [(''signed_up'', total_users),
          (''first_session'', users_with_sessions),
          (''activated_day_1'', activated_day_1),
          (''active_week_1'', activated_week_1),
          (''retained_week_2'', retained_week_2),
          (''weekly_active'', weekly_active)])"

definition analyze_user_activation ::
  "funnel_analyzer \<Rightarrow> user list \<Rightarrow> int session list \<Rightarrow> activation_metrics \<times> funnel_analyzer" where
  "analyze_user_activation self users_df sessions =
     (let total_users = int (length users_df);
          stages = activation_stage_counts users_df sessions;
          built = build_stages total_users total_users stages;
          cnt = (\<lambda>i. snd (stages ! i));
          rate = (\<lambda>i. if total_users > 0 then real_of_int (cnt i) / real_of_int total_users
                        else 0)
      in (\<lparr>total_signups = total_users,
           first_session_rate = rate 1,
           day_1_activation_rate = rate 2,
           week_1_retention_rate = rate 3,
           week_2_retention_rate = rate 4,
           weekly_active_rate = rate 5,
           signup_to_active_conversion = rate 5\<rparr>,
          self\<lparr>funnel_stages := built, funnel_data := Some built\<rparr>))"

text \<open>
  \<open>get_recommendations\<close>. \<open>fmt\<close> is Python's float format \<open>:.1%\<close>. \<open>contains_str\<close>
  is the substring test \<open>needle in haystack\<close>.
\<close>

fun contains_str :: "string \<Rightarrow> string \<Rightarrow> bool" where
  "contains_str needle [] = (needle = [])"
| "contains_str needle (c # cs) =
     (take (length needle) (c # cs) = needle \<or> contains_str needle cs)"

definition high_drop_off_msg :: "(real \<Rightarrow> string) \<Rightarrow> funnel_stage \<Rightarrow> string" where
  "high_drop_off_msg fmt stage =
     ''High drop-off ('' @ fmt (drop_off_rate stage) @ '') at '' @ [CHR 0x27] @ stage_name stage
       @ [CHR 0x27] @ ''. Consider optimizing this stage.''"

definition tracks_3_5_msg :: "(real \<Rightarrow> string) \<Rightarrow> real \<Rightarrow> string" where
  "tracks_3_5_msg fmt drop_off =
     ''Significant drop-off ('' @ fmt drop_off @ '') between tracks 3-5. ''
       @ ''Consider improving track recommendations or playlist ordering.''"

definition healthy_msg :: string where
  "healthy_msg = ''Funnel performance looks healthy. Continue monitoring.''"

definition run_first_msg :: string where
  "run_first_msg = ''Run funnel analysis first to generate recommendations.''"

text \<open>The loop \<open>for stage in self.funnel_stages[1:]\<close>, appending to \<open>recommendations\<close>.\<close>

fun flag_loop :: "(real \<Rightarrow> string) \<Rightarrow> funnel_stage list \<Rightarrow> string list \<Rightarrow> string list" where
  "flag_loop fmt [] recommendations = recommendations"
| "flag_loop fmt (stage # stages) recommendations =
     (if drop_off_rate stage > 0.20
      then flag_loop fmt stages (recommendations @ [high_drop_off_msg fmt stage])
      else flag_loop fmt stages recommendations)"

text \<open>
  The playlist-specific block. The division is numpy's: a zero count of the
  \<open>track_3\<close> stage gives \<open>nan\<close> or \<open>-inf\<close> there (the numerator is then not positive in
  a computed funnel), which is not above 0.15; division by zero is 0 in the model, with
  the same outcome of the comparison.
\<close>

definition tracks_3_5_note :: "(real \<Rightarrow> string) \<Rightarrow> funnel_stage list \<Rightarrow> string list" where
  "tracks_3_5_note fmt stages =
     (if list_ex (\<lambda>s. contains_str ''track_3'' (stage_name s)
                       \<or> contains_str ''track_5'' (stage_name s)) stages
      then (case (find (\<lambda>s. contains_str ''track_3'' (stage_name s)) stages,
                  find (\<lambda>s. contains_str ''track_5'' (stage_name s)) stages) of
              (Some track_3_stage, Some track_5_stage) \<Rightarrow>
                (let drop_off = real_of_int (users track_3_stage - users track_5_stage)
                                  / real_of_int (users track_3_stage)
                 in if drop_off > 0.15 then [tracks_3_5_msg fmt drop_off] else [])
            | _ \<Rightarrow> [])
      else [])"

definition get_recommendations :: "(real \<Rightarrow> string) \<Rightarrow> funnel_analyzer \<Rightarrow> string list" where
  "get_recommendations fmt self =
     (if (case funnel_data self of None \<Rightarrow> True | Some d \<Rightarrow> length d = 0)
      then [run_first_msg]
      else
        let recommendations = flag_loop fmt (drop 1 (funnel_stages self)) [];
            recommendations = recommendations @ tracks_3_5_note fmt (funnel_stages self)
        in if recommendations = [] then [healthy_msg] else recommendations)"

text \<open>The specification's wording: user counts that never increase along the stages.\<close>

fun non_increasing :: "int list \<Rightarrow> bool" where
  "non_increasing [] = True"
| "non_increasing [x] = True"
| "non_increasing (x # y # zs) = (y \<le> x \<and> non_increasing (y # zs))"

definition stage_users :: "funnel_analyzer \<Rightarrow> int list" where
  "stage_users self = map users (funnel_stages self)"

text \<open>
  Python's float format \<open>:.1%\<close> on a real: the value times 100 with one decimal
  (rounded half to even) and a percent sign. The theorems about \<open>get_recommendations\<close>
  hold for every formatter; this one makes the examples concrete.
\<close>

fun decimal :: "nat \<Rightarrow> string" where
  "decimal n = (if n < 10 then [char_of (48 + n)] else decimal (n div 10) @ [char_of (48 + n mod 10)])"

definition format_percent_1 :: "real \<Rightarrow> string" where
  "format_percent_1 x =
     (let n = nat (round_half_even (\<bar>x\<bar> * 1000))
      in (if x < 0 then ''-'' else '''') @ decimal (n div 10) @ ''.'' @ decimal (n mod 10) @ ''%'')"

subsection \<open>Feature aggregator (\<open>feature_engineering.py\<close>)\<close>

text \<open>
  A cell of the \<open>timestamp\<close> column as the caller passes it: still a text, or a
  timestamp already. \<open>pd.to_datetime\<close> parses the texts (the parameter \<open>parse\<close>) and
  keeps timestamps. The column has a datetime dtype when every cell is a timestamp.
\<close>

datatype ts_cell = TsText string | TsStamp int

fun is_stamp :: "ts_cell \<Rightarrow> bool" where
  "is_stamp (TsStamp t) = True"
| "is_stamp (TsText s) = False"

definition is_datetime64_any_dtype :: "ts_cell list \<Rightarrow> bool" where
  "is_datetime64_any_dtype col = list_all is_stamp col"

fun stamp :: "(string \<Rightarrow> int) \<Rightarrow> ts_cell \<Rightarrow> int" where
  "stamp parse (TsStamp t) = t"
| "stamp parse (TsText s) = parse s"

definition to_datetime :: "(string \<Rightarrow> int) \<Rightarrow> ts_cell session \<Rightarrow> ts_cell session" where
  "to_datetime parse s = s\<lparr>timestamp := TsStamp (stamp parse (timestamp s))\<rparr>"

text \<open>The same row with its timestamp read as a number of seconds.\<close>

definition stamped :: "(string \<Rightarrow> int) \<Rightarrow> ts_cell session \<Rightarrow> int session" where
  "stamped parse s =
     \<lparr>session_id = session_id s, user_id = user_id s, track_id = track_id s,
      timestamp = stamp parse (timestamp s),
      listen_duration_ms = listen_duration_ms s, track_duration_ms = track_duration_ms s,
      skipped = skipped s, context_col = context_col s, device = device s\<rparr>"

text \<open>\<open>_create_listening_streak_features\<close>: one row per user of the sessions table.\<close>

definition create_listening_streak_features ::
  "int session list \<Rightarrow> (string \<times> streak_features) list" where
  "create_listening_streak_features sessions =
     map (\<lambda>(u, rows). (u, user_streak_features (map (\<lambda>s. date_of (timestamp s)) rows)))
         (groupby user_id sessions)"

text \<open>
  \<open>sessions.merge(tracks[...], on='track_id', how='left')\<close>: every session row, once
  for each track row with its \<open>track_id\<close>, or once without track columns.
\<close>

definition merge_tracks :: "'t session list \<Rightarrow> track list \<Rightarrow> ('t session \<times> track option) list" where
  "merge_tracks sessions tracks =
     concat (map (\<lambda>s. case filter (\<lambda>t. t_track_id t = track_id s) tracks of
                         [] \<Rightarrow> [(s, None)]
                       | ts \<Rightarrow> map (\<lambda>t. (s, Some t)) ts) sessions)"

text \<open>
  The genre, session, audio and engagement groups compute floating-point statistics
  (entropy, means, standard deviations, logarithms). Of each of these tables the model
  keeps the \<open>user_id\<close> column, which is what the merges work on. Grouping by
  \<open>['user_id', 'genre']\<close> drops the rows without a genre.
\<close>

definition genre_diversity_users :: "('t session \<times> track option) list \<Rightarrow> string list" where
  "genre_diversity_users sessions_with_tracks =
     sort (remdups (map (\<lambda>(s, t). user_id s)
       (filter (\<lambda>(s, t). case t of None \<Rightarrow> False | Some tr \<Rightarrow> genre tr \<noteq> None)
               sessions_with_tracks)))"

definition session_feature_users :: "('t session \<times> track option) list \<Rightarrow> string list" where
  "session_feature_users sessions_with_tracks =
     map fst (groupby (\<lambda>(s, t). user_id s) sessions_with_tracks)"

definition audio_preference_users :: "('t session \<times> track option) list \<Rightarrow> string list" where
  "audio_preference_users sessions_with_tracks =
     map fst (groupby (\<lambda>(s, t). user_id s) sessions_with_tracks)"

definition engagement_users :: "'t session list \<Rightarrow> string list" where
  "engagement_users sessions = map fst (groupby user_id sessions)"

record playlist_features =
  playlist_session_ratio :: real
  playlist_track_count :: nat
  playlist_skip_rate :: real
  playlist_completion_tendency :: real

text \<open>The mean of a boolean column.\<close>

definition bool_mean :: "bool list \<Rightarrow> real" where
  "bool_mean bs = real (length (filter (\<lambda>b. b) bs)) / real (length bs)"

definition create_playlist_behavior_features ::
  "'t session list \<Rightarrow> (string \<times> playlist_features) list" where
  "create_playlist_behavior_features sessions =
     map (\<lambda>(u, rows).
            let playlist_rows = filter (\<lambda>s. context_col s = ''playlist'') rows;
                total_count = length rows;
                playlist_count = length playlist_rows;
                skip_rate = (if playlist_rows = [] then 0 else bool_mean (map skipped playlist_rows))
            in (u, \<lparr>playlist_session_ratio =
                       (if total_count > 0 then real playlist_count / real total_count else 0),
                     playlist_track_count = playlist_count,
                     playlist_skip_rate = skip_rate,
                     playlist_completion_tendency = 1 - skip_rate\<rparr>))
         (groupby user_id sessions)"

text \<open>
  \<open>pd.cut(x, bins, labels)\<close> with its defaults \<open>right=True, include_lowest=False\<close>:
  the label of the interval \<open>(lo, hi]\<close> between two successive bin edges that holds
  \<open>x\<close>, or a missing value.
\<close>

fun pd_cut :: "int list \<Rightarrow> 'l list \<Rightarrow> int \<Rightarrow> 'l option" where
  "pd_cut (lo # hi # bins) (l # labels) x =
     (if lo < x \<and> x \<le> hi then Some l else pd_cut (hi # bins) labels x)"
| "pd_cut bins labels x = None"

datatype bucket = night | morning | afternoon | evening

definition time_bucket :: "int \<Rightarrow> bucket option" where
  "time_bucket hour = pd_cut [-1, 6, 12, 18, 24] [night, morning, afternoon, evening] hour"

record temporal_features =
  night_ratio :: real
  morning_ratio :: real
  afternoon_ratio :: real
  evening_ratio :: real
  weekend_ratio :: real
  peak_hour :: int

text \<open>\<open>x.mode().iloc[0]\<close>: the smallest of the most frequent values, 12 without any.\<close>

definition peak_of :: "int list \<Rightarrow> int" where
  "peak_of hours =
     (if hours = [] then 12
      else let best = py_max (map (\<lambda>h. count_list hours h) hours)
           in py_min (filter (\<lambda>h. count_list hours h = best) hours))"

text \<open>
  \<open>_create_temporal_features\<close>, without \<open>hour_entropy\<close> (a sum of logarithms). The
  ratio of a bucket is the number of the user's sessions in it over the number of the
  user's sessions.
\<close>

definition bucket_ratio :: "bucket \<Rightarrow> int session list \<Rightarrow> real" where
  "bucket_ratio b rows =
     real (length (filter (\<lambda>s. time_bucket (hour_of (timestamp s)) = Some b) rows))
       / real (length rows)"

definition create_temporal_features :: "int session list \<Rightarrow> (string \<times> temporal_features) list" where
  "create_temporal_features sessions =
     map (\<lambda>(u, rows).
            (u, \<lparr>night_ratio = bucket_ratio night rows,
                 morning_ratio = bucket_ratio morning rows,
                 afternoon_ratio = bucket_ratio afternoon rows,
                 evening_ratio = bucket_ratio evening rows,
                 weekend_ratio =
                   real (length (filter (\<lambda>s. dayofweek (timestamp s) \<ge> 5) rows))
                     / real (length rows),
                 peak_hour = peak_of (map (\<lambda>s. hour_of (timestamp s)) rows)\<rparr>))
         (groupby user_id sessions)"

text \<open>
  The sibling computation in \<open>create_skip_prediction_features\<close> of the same module:
  \<open>is_morning = (hour >= 6) & (hour < 12)\<close> and \<open>is_evening = (hour >= 18) & (hour < 24)\<close>.
\<close>

definition is_morning :: "int \<Rightarrow> bool" where
  "is_morning hour = (hour \<ge> 6 \<and> hour < 12)"

definition is_evening :: "int \<Rightarrow> bool" where
  "is_evening hour = (hour \<ge> 18 \<and> hour < 24)"

text \<open>
  A row of the feature table. The groups that are kept are missing (\<open>None\<close>) where an
  outer merge found no row for the user; the final \<open>fillna(0)\<close> sets every numeric
  column of a missing group to 0.
\<close>

record feature_row =
  f_user_id :: string
  f_streak :: streak_features
  f_playlist :: playlist_features
  f_temporal :: temporal_features
  f_tier :: "string option"
  f_country :: "string option"
  f_age_group :: "string option"
  tier_encoded :: real
  age_group_encoded :: real
  country_frequency :: real

definition fill_streak :: "streak_features option \<Rightarrow> streak_features" where
  "fill_streak v = (case v of Some f \<Rightarrow> f
     | None \<Rightarrow> \<lparr>current_streak = 0, max_streak = 0, avg_streak = 0,
                streak_count = 0, active_days = 0, active_days_ratio = 0\<rparr>)"

definition fill_playlist :: "playlist_features option \<Rightarrow> playlist_features" where
  "fill_playlist v = (case v of Some f \<Rightarrow> f
     | None \<Rightarrow> \<lparr>playlist_session_ratio = 0, playlist_track_count = 0,
                playlist_skip_rate = 0, playlist_completion_tendency = 0\<rparr>)"

definition fill_temporal :: "temporal_features option \<Rightarrow> temporal_features" where
  "fill_temporal v = (case v of Some f \<Rightarrow> f
     | None \<Rightarrow> \<lparr>night_ratio = 0, morning_ratio = 0, afternoon_ratio = 0,
                evening_ratio = 0, weekend_ratio = 0, peak_hour = 0\<rparr>)"

text \<open>
  The key column of \<open>a.merge(b, on='user_id', how='outer')\<close> for two tables with one
  row per user: the union of the keys, in ascending order.
\<close>

definition outer_keys :: "string list \<Rightarrow> string list \<Rightarrow> string list" where
  "outer_keys a b = sort (remdups (a @ b))"

text \<open>
  \<open>all_features.merge(users[[...]], on='user_id', how='left')\<close>: every row of the left
  table, once for each users row with its \<open>user_id\<close>, or once without demographics.
\<close>

definition merge_users :: "string list \<Rightarrow> user list \<Rightarrow> (string \<times> user option) list" where
  "merge_users keys users_df =
     concat (map (\<lambda>k. case filter (\<lambda>u. u_user_id u = k) users_df of
                         [] \<Rightarrow> [(k, None)]
                       | us \<Rightarrow> map (\<lambda>u. (k, Some u)) us) keys)"

text \<open>\<open>_encode_categorical_features\<close>.\<close>

definition tier_map :: "string \<rightharpoonup> real" where
  "tier_map = map_of [(''free'', 0), (''student'', 1), (''premium'', 2), (''family'', 3)]"

definition age_map :: "string \<rightharpoonup> real" where
  "age_map = map_of [(''18-24'', 0), (''25-34'', 1), (''35-44'', 2), (''45-54'', 3), (''55+'', 4)]"

definition encode_with :: "(string \<rightharpoonup> real) \<Rightarrow> real \<Rightarrow> string option \<Rightarrow> real" where
  "encode_with m dflt v =
     (case v of None \<Rightarrow> dflt
      | Some x \<Rightarrow> (case m x of None \<Rightarrow> dflt | Some y \<Rightarrow> y))"

text \<open>\<open>value_counts(normalize=True)\<close> of the country column, missing values left out.\<close>

definition country_freq :: "string option list \<Rightarrow> string \<Rightarrow> real" where
  "country_freq col c =
     real (length (filter (\<lambda>v. v = Some c) col))
       / real (length (filter (\<lambda>v. v \<noteq> None) col))"

text \<open>
  \<open>create_all_features\<close>. The result is the sessions table of the caller as it is
  after the call, and the feature table. The assignment
  \<open>sessions['timestamp'] = pd.to_datetime(sessions['timestamp'])\<close> writes into the
  caller's table.
\<close>

definition create_all_features ::
  "(string \<Rightarrow> int) \<Rightarrow> ts_cell session list \<Rightarrow> user list \<Rightarrow> track list
     \<Rightarrow> ts_cell session list \<times> feature_row list" where
  "create_all_features parse sessions0 users_df tracks =
     (let sessions1 = (if \<not> is_datetime64_any_dtype (map timestamp sessions0)
                       then map (to_datetime parse) sessions0 else sessions0);
          sessions = map (stamped parse) sessions1;
          sessions_with_tracks = merge_tracks sessions tracks;
          streak_features = create_listening_streak_features sessions;
          genre_features = genre_diversity_users sessions_with_tracks;
          playlist_features = create_playlist_behavior_features sessions;
          session_features = session_feature_users sessions_with_tracks;
          temporal_features = create_temporal_features sessions;
          audio_features = audio_preference_users sessions_with_tracks;
          engagement_features = engagement_users sessions;
          keys = outer_keys (map fst streak_features) genre_features;
          keys = outer_keys keys (map fst playlist_features);
          keys = outer_keys keys session_features;
          keys = outer_keys keys (map fst temporal_features);
          keys = outer_keys keys audio_features;
          keys = outer_keys keys engagement_features;
          merged = merge_users keys users_df;
          country_col = map (\<lambda>(k, u). map_option country u) merged
      in (sessions1,
          map (\<lambda>(k, u).
                 \<lparr>f_user_id = k,
                  f_streak = fill_streak (map_of streak_features k),
                  f_playlist = fill_playlist (map_of playlist_features k),
                  f_temporal = fill_temporal (map_of temporal_features k),
                  f_tier = map_option tier u,
                  f_country = map_option country u,
                  f_age_group = map_option age_group u,
                  tier_encoded = encode_with tier_map 0 (map_option tier u),
                  age_group_encoded = encode_with age_map 1 (map_option age_group u),
                  country_frequency =
                    (case map_option country u of None \<Rightarrow> 0.1
                     | Some c \<Rightarrow> country_freq country_col c)\<rparr>)
              merged))"

section \<open>Verified properties\<close>

subsection \<open>Streaks are the run lengths of the active dates\<close>

lemma runs_nonempty: "xs \<noteq> [] \<Longrightarrow> runs xs \<noteq> []"
  by (induction xs rule: runs.induct) auto

lemma concat_runs: "concat (runs xs) = xs"
proof (induction xs rule: runs.induct)
  case (3 d e ds)
  have ne: "runs (e # ds) \<noteq> []" by (rule runs_nonempty) simp
  then obtain r rs where R: "runs (e # ds) = r # rs" by (cases "runs (e # ds)") auto
  with 3 show ?case by (auto simp: R)
qed auto

lemma sum_length_runs: "sum_list (map length (runs xs)) = length xs"
proof -
  have "length (concat (runs xs)) = length xs" by (simp add: concat_runs)
  then show ?thesis by (simp add: length_concat)
qed

lemma streak_loop_runs:
  "streak_loop prev ds (Suc k) acc = (s, c) \<Longrightarrow>
   s @ [c] = acc @ ((k + length (hd (runs (prev # ds)))) # map length (tl (runs (prev # ds))))"
proof (induction ds arbitrary: prev k acc)
  case Nil
  then show ?case by simp
next
  case (Cons d ds)
  have ne: "runs (d # ds) \<noteq> []" by (rule runs_nonempty) simp
  then obtain r rs where R: "runs (d # ds) = r # rs" by (cases "runs (d # ds)") auto
  show ?case
  proof (cases "d - prev = 1")
    case True
    with Cons.prems have "streak_loop d ds (Suc (Suc k)) acc = (s, c)" by simp
    from Cons.IH [OF this] True show ?thesis by (simp add: R)
  next
    case False
    with Cons.prems have "streak_loop d ds (Suc 0) (acc @ [Suc k]) = (s, c)" by simp
    from Cons.IH [OF this] False show ?thesis by (simp add: R)
  qed
qed

lemma compute_streaks_runs: "compute_streaks dates = map length (runs dates)"
proof (cases dates)
  case Nil
  then show ?thesis by (simp add: compute_streaks_def)
next
  case (Cons d ds)
  obtain s c where sc: "streak_loop d ds (Suc 0) [] = (s, c)" by (cases "streak_loop d ds (Suc 0) []")
  have ne: "runs (d # ds) \<noteq> []" by (rule runs_nonempty) simp
  then obtain r rs where R: "runs (d # ds) = r # rs" by (cases "runs (d # ds)") auto
  from streak_loop_runs [OF sc] show ?thesis
    by (simp add: compute_streaks_def Cons sc R)
qed

lemma py_max_ge_last: "xs \<noteq> [] \<Longrightarrow> last xs \<le> py_max xs"
proof -
  assume ne: "xs \<noteq> []"
  then obtain y ys where xs: "xs = y # ys" by (cases xs) auto
  have "py_max xs = Max (set xs)"
    unfolding py_max_def xs using Max.set_eq_fold [of y ys] by simp
  moreover have "last xs \<in> set xs" using ne by simp
  ultimately show ?thesis by simp
qed

lemma length_sorted_dates: "length (sorted_dates ds) = card (set ds)"
  by (simp add: sorted_dates_def length_remdups_card_conv)

lemma sorted_dates_nonempty: "ds \<noteq> [] \<Longrightarrow> sorted_dates ds \<noteq> []"
proof
  assume ne: "ds \<noteq> []" and e: "sorted_dates ds = []"
  have "set (sorted_dates ds) = set ds" by (simp add: sorted_dates_def)
  with e have "set ds = {}" by simp
  with ne show False by simp
qed

text \<open>
  Claim C8. For a user with at least one session, the list of streak lengths computed by
  the loop is the list of lengths of the maximal runs of consecutive days in the sorted
  distinct dates; \<open>active_days\<close> is the number of distinct dates; the streak lengths sum
  to \<open>active_days\<close>; \<open>current_streak\<close> is the length of the last (most recent) run;
  and \<open>current_streak\<close> is at most \<open>max_streak\<close>.
\<close>

theorem streak_run_lengths:
  assumes "user_dates \<noteq> []"
  shows "compute_streaks (sorted_dates user_dates) = map length (runs (sorted_dates user_dates))
       \<and> active_days (user_streak_features user_dates) = card (set user_dates)
       \<and> sum_list (compute_streaks (sorted_dates user_dates))
           = active_days (user_streak_features user_dates)
       \<and> current_streak (user_streak_features user_dates)
           = length (last (runs (sorted_dates user_dates)))
       \<and> current_streak (user_streak_features user_dates)
           \<le> max_streak (user_streak_features user_dates)"
proof -
  let ?dates = "sorted_dates user_dates"
  have ne: "?dates \<noteq> []" using assms by (rule sorted_dates_nonempty)
  have rne: "runs ?dates \<noteq> []" using ne by (rule runs_nonempty)
  have cs: "compute_streaks ?dates = map length (runs ?dates)" by (rule compute_streaks_runs)
  have sne: "compute_streaks ?dates \<noteq> []" using rne by (simp add: cs)
  have f: "user_streak_features user_dates =
      \<lparr>current_streak = last (compute_streaks ?dates),
       max_streak = py_max (compute_streaks ?dates),
       avg_streak = np_mean (compute_streaks ?dates),
       streak_count = length (compute_streaks ?dates),
       active_days = length ?dates,
       active_days_ratio =
         (if (py_max ?dates - py_min ?dates) + 1 > 0
          then real (length ?dates) / real_of_int ((py_max ?dates - py_min ?dates) + 1) else 0)\<rparr>"
    using ne sne by (simp add: user_streak_features_def Let_def)
  have a: "active_days (user_streak_features user_dates) = card (set user_dates)"
    by (simp add: f length_sorted_dates)
  have b: "sum_list (compute_streaks ?dates) = active_days (user_streak_features user_dates)"
    by (simp add: f cs sum_length_runs)
  have c: "current_streak (user_streak_features user_dates) = length (last (runs ?dates))"
    using rne by (simp add: f cs last_map)
  have d: "current_streak (user_streak_features user_dates)
             \<le> max_streak (user_streak_features user_dates)"
    using sne by (simp add: f py_max_ge_last)
  from cs a b c d show ?thesis by blast
qed

theorem streak_run_lengths_witness:
  "[3, 1, 2, 7, 3, 8, 10] \<noteq> ([]::int list)
   \<and> compute_streaks (sorted_dates [3, 1, 2, 7, 3, 8, 10]) = [3, 2, 1]
   \<and> runs (sorted_dates [3, 1, 2, 7, 3, 8, 10]) = [[1, 2, 3], [7, 8], [10]]
   \<and> active_days (user_streak_features [3, 1, 2, 7, 3, 8, 10]) = 6
   \<and> current_streak (user_streak_features [3, 1, 2, 7, 3, 8, 10]) = 1
   \<and> max_streak (user_streak_features [3, 1, 2, 7, 3, 8, 10]) = 3"
proof -
  have h: "[3, 1, 2, 7, 3, 8, 10] \<noteq> ([]::int list)" by simp
  have s: "sorted_dates [3, 1, 2, 7, 3, 8, 10] = [1, 2, 3, 7, 8, 10]"
    by (simp add: sorted_dates_def)
  have r: "runs [1, 2, 3, 7, 8, 10] = [[1, 2, 3], [7, 8], [10]]" by simp
  have c: "compute_streaks [1, 2, 3, 7, 8, 10] = [3, 2, 1]"
    by (simp add: compute_streaks_def)
  have f: "user_streak_features [3, 1, 2, 7, 3, 8, 10] =
      \<lparr>current_streak = 1, max_streak = 3, avg_streak = 2, streak_count = 3,
       active_days = 6, active_days_ratio = 6 / 10\<rparr>"
    by (simp add: user_streak_features_def s c py_max_def py_min_def np_mean_def Let_def)
  from streak_run_lengths [OF h] show ?thesis
    by (simp add: s r c f)
qed

subsection \<open>Sample size, random assignment and the confidence interval\<close>

text \<open>
  Claim C9. Whenever the absolute effect \<open>|baseline_rate * mde|\<close> is exactly zero,
  \<open>calculate_sample_size\<close> returns exactly 10000, for every baseline rate, relative
  effect, power and significance level (and whatever the quantile function returns).
\<close>

theorem sample_size_zero_effect:
  assumes "\<bar>baseline_rate * mde\<bar> = 0"
  shows "calculate_sample_size ppf self baseline_rate mde pw = 10000"
proof -
  have "baseline_rate * (1 + mde) - baseline_rate = baseline_rate * mde"
    by (simp add: algebra_simps)
  with assms have "\<bar>baseline_rate * (1 + mde) - baseline_rate\<bar> = 0" by simp
  then show ?thesis by (simp add: calculate_sample_size_def Let_def)
qed

theorem sample_size_zero_effect_witness:
  "\<bar>(3 / 10) * (0::real)\<bar> = 0
   \<and> calculate_sample_size (\<lambda>q. 2 * q) (ab_init 0.05) (3 / 10) 0 0.8 = 10000
   \<and> calculate_sample_size (\<lambda>q. 2 * q) (ab_init 0.05) 0 (1 / 20) 0.8 = 10000"
proof -
  have h1: "\<bar>(3 / 10) * (0::real)\<bar> = 0" by simp
  have h2: "\<bar>0 * (1 / 20 :: real)\<bar> = 0" by simp
  from sample_size_zero_effect [OF h1] sample_size_zero_effect [OF h2] show ?thesis by simp
qed




















subsection \<open>Order of the funnel stage counts\<close>

lemma count_where_mono:
  assumes "\<And>r. P r \<Longrightarrow> Q r"
  shows "count_where P rows \<le> count_where Q rows"
proof -
  have "length (filter P rows) \<le> length (filter Q rows)"
  proof (induction rows)
    case Nil
    show ?case by simp
  next
    case (Cons r rows)
    with assms [of r] show ?case by auto
  qed
  then show ?thesis by (simp add: count_where_def)
qed

lemma count_where_le_length: "count_where P rows \<le> int (length rows)"
  by (simp add: count_where_def)

lemma users_build_stages: "map users (build_stages t p stages) = map snd stages"
  by (induction stages arbitrary: p) auto

lemma length_groupby: "length (groupby key rows) = nunique (map key rows)"
  by (simp add: groupby_def nunique_def)

lemma playlist_counts_order:
  "playlist_stage_counts progress = cs \<Longrightarrow>
   length cs = 7
   \<and> snd (cs ! 1) \<le> snd (cs ! 0) \<and> snd (cs ! 2) \<le> snd (cs ! 1) \<and> snd (cs ! 3) \<le> snd (cs ! 2)
   \<and> snd (cs ! 4) \<le> snd (cs ! 0) \<and> snd (cs ! 5) \<le> snd (cs ! 4) \<and> snd (cs ! 6) \<le> snd (cs ! 5)"
proof -
  assume cs: "playlist_stage_counts progress = cs"
  have a: "count_where (\<lambda>r. tracks_completed r \<ge> 1) progress \<le> int (length progress)"
    by (rule count_where_le_length)
  have b: "count_where (\<lambda>r. tracks_completed r \<ge> 3) progress
             \<le> count_where (\<lambda>r. tracks_completed r \<ge> 1) progress"
    by (rule count_where_mono) simp
  have c: "count_where (\<lambda>r. tracks_completed r \<ge> 5) progress
             \<le> count_where (\<lambda>r. tracks_completed r \<ge> 3) progress"
    by (rule count_where_mono) simp
  have d: "count_where (\<lambda>r. completion_ratio r \<ge> 0.5) progress \<le> int (length progress)"
    by (rule count_where_le_length)
  have e: "count_where (\<lambda>r. completion_ratio r \<ge> 0.75) progress
             \<le> count_where (\<lambda>r. completion_ratio r \<ge> 0.5) progress"
    by (rule count_where_mono) simp
  have f: "count_where (\<lambda>r. completion_ratio r \<ge> 1.0) progress
             \<le> count_where (\<lambda>r. completion_ratio r \<ge> 0.75) progress"
    by (rule count_where_mono) simp
  from a b c d e f show ?thesis
    unfolding cs [symmetric] playlist_stage_counts_def by simp
qed

lemma count_le_groups:
  "count_where P (map f (groupby user_id sessions)) \<le> int (nunique (map user_id sessions))"
proof -
  have "count_where P (map f (groupby user_id sessions))
          \<le> int (length (map f (groupby user_id sessions)))"
    by (rule count_where_le_length)
  then show ?thesis by (simp add: length_groupby)
qed

lemma filter_distinct_bound:
  assumes "distinct (map key rows)" and "\<And>r. r \<in> set rows \<Longrightarrow> P r \<Longrightarrow> key r \<in> set ks"
  shows "length (filter P rows) \<le> length (remdups ks)"
proof -
  have d: "distinct (map key (filter P rows))" using assms(1) by (rule distinct_map_filter)
  have "set (map key (filter P rows)) \<subseteq> set ks" using assms(2) by auto
  then have "card (set (map key (filter P rows))) \<le> card (set ks)"
    by (intro card_mono) auto
  with d show ?thesis by (simp add: distinct_card length_remdups_card_conv del: set_map)
qed

lemma map_of_groupby_Some:
  assumes "map_of (map (\<lambda>(u, rows). (u, g rows)) (groupby key rows)) k = Some v"
  shows "k \<in> set (map key rows)"
proof -
  from assms have "k \<in> fst ` set (map (\<lambda>(u, rows). (u, g rows)) (groupby key rows))"
    by (metis map_of_eq_None_iff option.distinct(1))
  then show ?thesis by (auto simp: groupby_def)
qed

lemma activation_counts_order:
  assumes cs: "activation_stage_counts users_df sessions = cs"
  shows "length cs = 6
   \<and> snd (cs ! 2) \<le> snd (cs ! 0) \<and> snd (cs ! 3) \<le> snd (cs ! 1)
   \<and> snd (cs ! 4) \<le> snd (cs ! 1) \<and> snd (cs ! 5) \<le> snd (cs ! 1)
   \<and> (set (map user_id sessions) \<subseteq> set (map u_user_id users_df) \<longrightarrow> snd (cs ! 1) \<le> snd (cs ! 0))
   \<and> (distinct (map u_user_id users_df) \<longrightarrow> snd (cs ! 2) \<le> snd (cs ! 1))"
proof -
  let ?fs = "map (\<lambda>(u, rows). (u, py_min (map timestamp rows))) (groupby user_id sessions)"
  let ?ufs = "map (\<lambda>u. (u, map_of ?fs (u_user_id u))) users_df"
  let ?P = "\<lambda>(u, fs). case fs of None \<Rightarrow> False | Some f \<Rightarrow> (f - signup_date u) div 86400 \<le> 1"
  have a: "count_where ?P ?ufs \<le> int (length users_df)"
    using count_where_le_length [of ?P ?ufs] by simp
  have c: "int (nunique (map user_id sessions)) \<le> int (length users_df)"
    if "set (map user_id sessions) \<subseteq> set (map u_user_id users_df)"
  proof -
    have "card (set (map user_id sessions)) \<le> card (set (map u_user_id users_df))"
      using that by (intro card_mono) auto
    also have "\<dots> \<le> length (map u_user_id users_df)" by (rule card_length)
    finally show ?thesis by (simp add: nunique_def length_remdups_card_conv del: set_map)
  qed
  have d: "count_where ?P ?ufs \<le> int (nunique (map user_id sessions))"
    if dist: "distinct (map u_user_id users_df)"
  proof -
    have dm: "distinct (map (\<lambda>p. u_user_id (fst p)) ?ufs)"
      using dist by (simp add: comp_def)
    have "length (filter ?P ?ufs) \<le> length (remdups (map user_id sessions))"
    proof (rule filter_distinct_bound [where key = "\<lambda>p. u_user_id (fst p)", OF dm])
      fix r assume r: "r \<in> set ?ufs" "?P r"
      from r(1) obtain u where ru: "r = (u, map_of ?fs (u_user_id u))" by auto
      with r(2) obtain f where "map_of ?fs (u_user_id u) = Some f"
        by (cases "map_of ?fs (u_user_id u)") auto
      then have "u_user_id u \<in> set (map user_id sessions)"
        by (rule map_of_groupby_Some)
      with ru show "u_user_id (fst r) \<in> set (map user_id sessions)" by simp
    qed
    then show ?thesis by (simp add: count_where_def nunique_def)
  qed
  from a c d show ?thesis
    unfolding cs [symmetric] activation_stage_counts_def Let_def
    by (simp add: count_le_groups)
qed


lemma nth_map_snd_7:
  "length cs = 7 \<Longrightarrow> map snd cs ! 0 = snd (cs ! 0) \<and> map snd cs ! 1 = snd (cs ! 1)
     \<and> map snd cs ! 2 = snd (cs ! 2) \<and> map snd cs ! 3 = snd (cs ! 3)
     \<and> map snd cs ! 4 = snd (cs ! 4) \<and> map snd cs ! 5 = snd (cs ! 5)
     \<and> map snd cs ! 6 = snd (cs ! 6)"
  by simp

lemma nth_map_snd_6:
  "length cs = 6 \<Longrightarrow> map snd cs ! 0 = snd (cs ! 0) \<and> map snd cs ! 1 = snd (cs ! 1)
     \<and> map snd cs ! 2 = snd (cs ! 2) \<and> map snd cs ! 3 = snd (cs ! 3)
     \<and> map snd cs ! 4 = snd (cs ! 4) \<and> map snd cs ! 5 = snd (cs ! 5)"
  by simp

lemma playlist_stage_users:
  assumes "analyze_playlist_completion np_geometric np_choice self sessions playlist_tracks
             = (Some m, self')"
  shows "\<exists>progress. stage_users self' = map snd (playlist_stage_counts progress)"
proof -
  from assms have ne: "length (filter (\<lambda>s. context_col s = ''playlist'') sessions) \<noteq> 0"
    by (auto simp: analyze_playlist_completion_def Let_def split: if_splits)
  let ?progress = "simulate_playlist_progress np_geometric np_choice
      (filter (\<lambda>s. context_col s = ''playlist'') sessions)
      (map (\<lambda>(p, rows). int (length rows)) (groupby (\<lambda>p. p) playlist_tracks))"
  from assms ne have "funnel_stages self'
      = build_stages (int (length ?progress)) (int (length ?progress))
          (playlist_stage_counts ?progress)"
    by (auto simp: analyze_playlist_completion_def Let_def)
  then have "stage_users self' = map snd (playlist_stage_counts ?progress)"
    by (simp add: stage_users_def users_build_stages)
  then show ?thesis by blast
qed

lemma activation_stage_users:
  "stage_users (snd (analyze_user_activation self users_df sessions))
     = map snd (activation_stage_counts users_df sessions)"
  by (simp add: analyze_user_activation_def Let_def stage_users_def users_build_stages)

text \<open>
  Claim C2, as the code has it. The stage counts are computed independently of each
  other, not by restricting the previous stage. In the playlist funnel the counts do not
  increase from \<open>started\<close> through \<open>track_5_complete\<close>, nor from
  \<open>50_percent_complete\<close> through \<open>100_percent_complete\<close>, and
  \<open>50_percent_complete\<close> is at most \<open>started\<close>. In the activation funnel
  \<open>activated_day_1\<close> is at most \<open>signed_up\<close>, and each of \<open>active_week_1\<close>,
  \<open>retained_week_2\<close> and \<open>weekly_active\<close> is at most \<open>first_session\<close>;
  \<open>first_session\<close> is at most \<open>signed_up\<close> when every session belongs to a user of the
  users table, and \<open>activated_day_1\<close> is at most \<open>first_session\<close> when the user ids of
  the users table are distinct.
\<close>

theorem funnel_counts_order:
  "(analyze_playlist_completion np_geometric np_choice self sessions playlist_tracks
       = (Some m, self') \<longrightarrow>
     (let u = stage_users self' in
        length u = 7 \<and> u ! 1 \<le> u ! 0 \<and> u ! 2 \<le> u ! 1 \<and> u ! 3 \<le> u ! 2
        \<and> u ! 4 \<le> u ! 0 \<and> u ! 5 \<le> u ! 4 \<and> u ! 6 \<le> u ! 5))
   \<and> (let u = stage_users (snd (analyze_user_activation self2 users_df sessions2)) in
        length u = 6 \<and> u ! 2 \<le> u ! 0 \<and> u ! 3 \<le> u ! 1 \<and> u ! 4 \<le> u ! 1 \<and> u ! 5 \<le> u ! 1
        \<and> (set (map user_id sessions2) \<subseteq> set (map u_user_id users_df) \<longrightarrow> u ! 1 \<le> u ! 0)
        \<and> (distinct (map u_user_id users_df) \<longrightarrow> u ! 2 \<le> u ! 1))"
proof (intro conjI impI)
  assume "analyze_playlist_completion np_geometric np_choice self sessions playlist_tracks
            = (Some m, self')"
  from playlist_stage_users [OF this] obtain progress
    where u: "stage_users self' = map snd (playlist_stage_counts progress)" by blast
  have o: "length (playlist_stage_counts progress) = 7
   \<and> snd (playlist_stage_counts progress ! 1) \<le> snd (playlist_stage_counts progress ! 0)
   \<and> snd (playlist_stage_counts progress ! 2) \<le> snd (playlist_stage_counts progress ! 1)
   \<and> snd (playlist_stage_counts progress ! 3) \<le> snd (playlist_stage_counts progress ! 2)
   \<and> snd (playlist_stage_counts progress ! 4) \<le> snd (playlist_stage_counts progress ! 0)
   \<and> snd (playlist_stage_counts progress ! 5) \<le> snd (playlist_stage_counts progress ! 4)
   \<and> snd (playlist_stage_counts progress ! 6) \<le> snd (playlist_stage_counts progress ! 5)"
    by (rule playlist_counts_order) (rule refl)
  then have l: "length (playlist_stage_counts progress) = 7" by blast
  from o nth_map_snd_7 [OF l]
  show "let u = stage_users self' in
        length u = 7 \<and> u ! 1 \<le> u ! 0 \<and> u ! 2 \<le> u ! 1 \<and> u ! 3 \<le> u ! 2
        \<and> u ! 4 \<le> u ! 0 \<and> u ! 5 \<le> u ! 4 \<and> u ! 6 \<le> u ! 5"
    unfolding Let_def u by (simp only: length_map) 
next
  let ?cs = "activation_stage_counts users_df sessions2"
  have o: "length ?cs = 6
   \<and> snd (?cs ! 2) \<le> snd (?cs ! 0) \<and> snd (?cs ! 3) \<le> snd (?cs ! 1)
   \<and> snd (?cs ! 4) \<le> snd (?cs ! 1) \<and> snd (?cs ! 5) \<le> snd (?cs ! 1)
   \<and> (set (map user_id sessions2) \<subseteq> set (map u_user_id users_df) \<longrightarrow> snd (?cs ! 1) \<le> snd (?cs ! 0))
   \<and> (distinct (map u_user_id users_df) \<longrightarrow> snd (?cs ! 2) \<le> snd (?cs ! 1))"
    by (rule activation_counts_order) (rule refl)
  then have l: "length ?cs = 6" by blast
  from o nth_map_snd_6 [OF l]
  show "let u = stage_users (snd (analyze_user_activation self2 users_df sessions2)) in
        length u = 6 \<and> u ! 2 \<le> u ! 0 \<and> u ! 3 \<le> u ! 1 \<and> u ! 4 \<le> u ! 1 \<and> u ! 5 \<le> u ! 1
        \<and> (set (map user_id sessions2) \<subseteq> set (map u_user_id users_df) \<longrightarrow> u ! 1 \<le> u ! 0)
        \<and> (distinct (map u_user_id users_df) \<longrightarrow> u ! 2 \<le> u ! 1)"
    unfolding Let_def activation_stage_users by (simp only: length_map) blast
qed


theorem funnel_counts_order_witness:
  "fst (analyze_playlist_completion (\<lambda>n. replicate n 4) (\<lambda>vs n. replicate n (hd vs)) funnel_init
      [\<lparr>session_id = ''s1'', user_id = ''u1'', track_id = ''t1'', timestamp = (0::int),
        listen_duration_ms = 1000, track_duration_ms = 2000, skipped = False,
        context_col = ''playlist'', device = ''mobile''\<rparr>]
      [''p1'', ''p1'', ''p1'', ''p1'', ''p1'', ''p1'', ''p1'', ''p1'']) \<noteq> None
   \<and> stage_users (snd (analyze_playlist_completion (\<lambda>n. replicate n 4)
        (\<lambda>vs n. replicate n (hd vs)) funnel_init
      [\<lparr>session_id = ''s1'', user_id = ''u1'', track_id = ''t1'', timestamp = (0::int),
        listen_duration_ms = 1000, track_duration_ms = 2000, skipped = False,
        context_col = ''playlist'', device = ''mobile''\<rparr>]
      [''p1'', ''p1'', ''p1'', ''p1'', ''p1'', ''p1'', ''p1'', ''p1'']))
       = [1, 1, 1, 0, 1, 0, 0]
   \<and> stage_users (snd (analyze_user_activation funnel_init
        [\<lparr>u_user_id = ''u1'', signup_date = 0, tier = ''free'', country = ''US'',
          age_group = ''18-24''\<rparr>]
        [\<lparr>session_id = ''s1'', user_id = ''u1'', track_id = ''t1'', timestamp = 3600,
          listen_duration_ms = 1000, track_duration_ms = 2000, skipped = False,
          context_col = ''album'', device = ''mobile''\<rparr>]))
       = [1, 1, 1, 0, 0, 0]"
proof -
  let ?g = "\<lambda>n::nat. replicate n (4::int)"
  let ?c = "\<lambda>(vs::int list) n::nat. replicate n (hd vs)"
  let ?s = "[\<lparr>session_id = ''s1'', user_id = ''u1'', track_id = ''t1'', timestamp = (0::int),
        listen_duration_ms = 1000, track_duration_ms = 2000, skipped = False,
        context_col = ''playlist'', device = ''mobile''\<rparr>]"
  let ?p = "[''p1'', ''p1'', ''p1'', ''p1'', ''p1'', ''p1'', ''p1'', ''p1'']"
  let ?u = "[\<lparr>u_user_id = ''u1'', signup_date = 0, tier = ''free'', country = ''US'',
          age_group = ''18-24''\<rparr>]"
  let ?s2 = "[\<lparr>session_id = ''s1'', user_id = ''u1'', track_id = ''t1'', timestamp = 3600,
          listen_duration_ms = 1000, track_duration_ms = 2000, skipped = False,
          context_col = ''album'', device = ''mobile''\<rparr>]"
  have a: "stage_users (snd (analyze_playlist_completion ?g ?c funnel_init ?s ?p))
             = [1, 1, 1, 0, 1, 0, 0]"
    by code_simp
  have b: "fst (analyze_playlist_completion ?g ?c funnel_init ?s ?p) \<noteq> None"
    by code_simp
  have c: "stage_users (snd (analyze_user_activation funnel_init ?u ?s2)) = [1, 1, 1, 0, 0, 0]"
    by code_simp
  from b obtain m where m: "fst (analyze_playlist_completion ?g ?c funnel_init ?s ?p) = Some m"
    by blast
  have e: "analyze_playlist_completion ?g ?c funnel_init ?s ?p
             = (Some m, snd (analyze_playlist_completion ?g ?c funnel_init ?s ?p))"
    using m by (simp add: prod_eq_iff)
  from funnel_counts_order [of ?g ?c funnel_init ?s ?p m
      "snd (analyze_playlist_completion ?g ?c funnel_init ?s ?p)" funnel_init ?u ?s2]
    e a b c
  show ?thesis by simp
qed

text \<open>
  Claim C2 as stated fails: one user who signed up on day 0 and has two sessions on day
  10 is not counted in \<open>activated_day_1\<close> but is counted in \<open>active_week_1\<close>, so the
  counts are 1, 1, 0, 1, 0, 0.
\<close>

theorem funnel_counts_counterexample:
  "\<not> non_increasing (stage_users (snd (analyze_user_activation funnel_init
        [\<lparr>u_user_id = ''u1'', signup_date = 0, tier = ''free'', country = ''US'',
          age_group = ''18-24''\<rparr>]
        [\<lparr>session_id = ''s1'', user_id = ''u1'', track_id = ''t1'', timestamp = 864000,
          listen_duration_ms = 1000, track_duration_ms = 2000, skipped = False,
          context_col = ''album'', device = ''mobile''\<rparr>,
         \<lparr>session_id = ''s2'', user_id = ''u1'', track_id = ''t2'', timestamp = 867600,
          listen_duration_ms = 1000, track_duration_ms = 2000, skipped = False,
          context_col = ''album'', device = ''mobile''\<rparr>])))"
  by code_simp

text \<open>
  The playlist funnel is not ordered between \<open>track_5_complete\<close> and
  \<open>50_percent_complete\<close> either: a progress row with both tracks of a two-track
  playlist completed.
\<close>

lemma playlist_counts_not_ordered:
  "map snd (playlist_stage_counts
      [\<lparr>p_user_id = ''u1'', tracks_completed = 2, playlist_length = 2,
        completion_ratio = clip 0 1 (2 / 2)\<rparr>]) = [1, 1, 0, 0, 1, 1, 1]"
  by (simp add: playlist_stage_counts_def count_where_def clip_def)

subsection \<open>Biggest drop-off and recommendations\<close>

lemma biggest_loop_none:
  "(\<And>t. t \<in> set stages \<Longrightarrow> drop_off_rate t \<le> max_drop) \<Longrightarrow>
   biggest_loop stages max_drop max_stage = max_stage"
  by (induction stages arbitrary: max_drop max_stage) (auto simp: not_less [symmetric])

lemma biggest_loop_first_largest:
  assumes "\<And>t. t \<in> set pre \<Longrightarrow> drop_off_rate t < drop_off_rate s"
    and "\<And>t. t \<in> set post \<Longrightarrow> drop_off_rate t \<le> drop_off_rate s"
    and "max_drop < drop_off_rate s"
  shows "biggest_loop (pre @ s # post) max_drop max_stage = stage_name s"
  using assms
proof (induction pre arbitrary: max_drop max_stage)
  case Nil
  then show ?case by (simp add: biggest_loop_none)
next
  case (Cons p pre)
  have ps: "drop_off_rate p < drop_off_rate s" using Cons.prems(1) by simp
  show ?case
  proof (cases "drop_off_rate p > max_drop")
    case True
    have "biggest_loop (pre @ s # post) (drop_off_rate p) (stage_name p) = stage_name s"
      using Cons.prems ps by (intro Cons.IH) auto
    with True show ?thesis by simp
  next
    case False
    have "biggest_loop (pre @ s # post) max_drop max_stage = stage_name s"
      using Cons.prems by (intro Cons.IH) auto
    with False show ?thesis by simp
  qed
qed

text \<open>Every non-empty stage list has a first stage of largest \<open>drop_off_rate\<close>.\<close>

lemma first_largest_exists:
  "stages \<noteq> [] \<Longrightarrow>
   \<exists>pre s post. stages = pre @ s # post
      \<and> (\<forall>t \<in> set pre. drop_off_rate t < drop_off_rate s)
      \<and> (\<forall>t \<in> set post. drop_off_rate t \<le> drop_off_rate s)"
proof (induction stages)
  case Nil
  then show ?case by simp
next
  case (Cons x stages)
  show ?case
  proof (cases "stages = []")
    case True
    then have "x # stages = [] @ x # []" by simp
    then show ?thesis by (metis empty_iff list.set(1))
  next
    case False
    from Cons.IH [OF False] obtain pre s post where d: "stages = pre @ s # post"
      and p: "\<forall>t \<in> set pre. drop_off_rate t < drop_off_rate s"
      and q: "\<forall>t \<in> set post. drop_off_rate t \<le> drop_off_rate s" by blast
    show ?thesis
    proof (cases "drop_off_rate x < drop_off_rate s")
      case True
      have "x # stages = (x # pre) @ s # post" using d by simp
      moreover have "\<forall>t \<in> set (x # pre). drop_off_rate t < drop_off_rate s"
        using True p by simp
      ultimately show ?thesis using q by blast
    next
      case False
      have "\<forall>t \<in> set stages. drop_off_rate t \<le> drop_off_rate x"
        using False d p q by fastforce
      moreover have "x # stages = [] @ x # stages" by simp
      ultimately show ?thesis by (metis empty_iff list.set(1))
    qed
  qed
qed

text \<open>
  Claim C6, as the code has it. With no stage after the first the result is
  \<open>unknown\<close>. Otherwise, for the first stage \<open>s\<close> after the first whose
  \<open>drop_off_rate\<close> is the largest (every earlier one is strictly smaller, every later
  one at most equal), the result is the name of \<open>s\<close> when that rate is positive, and
  \<open>unknown\<close> when it is not.
\<close>

theorem biggest_drop_off_first_largest:
  "(length (funnel_stages self) \<le> 1 \<longrightarrow> find_biggest_drop_off self = ''unknown'')
   \<and> (drop 1 (funnel_stages self) = pre @ s # post
        \<and> (\<forall>t \<in> set pre. drop_off_rate t < drop_off_rate s)
        \<and> (\<forall>t \<in> set post. drop_off_rate t \<le> drop_off_rate s)
      \<longrightarrow> find_biggest_drop_off self
            = (if 0 < drop_off_rate s then stage_name s else ''unknown''))"
proof (intro conjI impI)
  assume "length (funnel_stages self) \<le> 1"
  then have "drop 1 (funnel_stages self) = []" by simp
  then show "find_biggest_drop_off self = ''unknown''"
    by (simp add: find_biggest_drop_off_def)
next
  assume a: "drop 1 (funnel_stages self) = pre @ s # post
        \<and> (\<forall>t \<in> set pre. drop_off_rate t < drop_off_rate s)
        \<and> (\<forall>t \<in> set post. drop_off_rate t \<le> drop_off_rate s)"
  then have ne: "funnel_stages self \<noteq> []" by auto
  show "find_biggest_drop_off self = (if 0 < drop_off_rate s then stage_name s else ''unknown'')"
  proof (cases "0 < drop_off_rate s")
    case True
    have "biggest_loop (pre @ s # post) 0 ''unknown'' = stage_name s"
      using a True by (intro biggest_loop_first_largest) auto
    with a ne True show ?thesis by (simp add: find_biggest_drop_off_def)
  next
    case False
    have "biggest_loop (pre @ s # post) 0 ''unknown'' = ''unknown''"
    proof (rule biggest_loop_none)
      fix t assume "t \<in> set (pre @ s # post)"
      with a have "drop_off_rate t \<le> drop_off_rate s" by auto
      with False show "drop_off_rate t \<le> 0" by simp
    qed
    with a ne False show ?thesis by (simp add: find_biggest_drop_off_def)
  qed
qed

theorem biggest_drop_off_first_largest_witness:
  "find_biggest_drop_off
     (snd (analyze_playlist_completion (\<lambda>n. [7, 2, 9, 4, 1, 6]) (\<lambda>vs n. replicate n 5)
        funnel_init
        (map (\<lambda>u. \<lparr>session_id = u, user_id = u, track_id = ''t'', timestamp = (0::int),
                   listen_duration_ms = 1000, track_duration_ms = 2000, skipped = False,
                   context_col = ''playlist'', device = ''mobile''\<rparr>)
             [''a'', ''b'', ''c'', ''d'', ''e'', ''f''])
        [''p'', ''p'', ''p'', ''p'', ''p''])) = ''track_3_complete''
   \<and> find_biggest_drop_off funnel_init = ''unknown''"
proof -
  let ?self = "snd (analyze_playlist_completion (\<lambda>n. [7, 2, 9, 4, 1, 6])
        (\<lambda>vs n. replicate n 5) funnel_init
        (map (\<lambda>u. \<lparr>session_id = u, user_id = u, track_id = ''t'', timestamp = (0::int),
                   listen_duration_ms = 1000, track_duration_ms = 2000, skipped = False,
                   context_col = ''playlist'', device = ''mobile''\<rparr>)
             [''a'', ''b'', ''c'', ''d'', ''e'', ''f''])
        [''p'', ''p'', ''p'', ''p'', ''p''])"
  let ?st = "\<lambda>nm n c r. \<lparr>stage_name = nm, users = n, conversion_rate = c, drop_off_rate = r\<rparr>"
  let ?pre = "[?st ''track_1_complete'' 6 1 0]"
  let ?s = "?st ''track_3_complete'' 4 (2 / 3) (1 / 3)"
  let ?post = "[?st ''track_5_complete'' 3 (1 / 2) (1 / 4),
                ?st ''50_percent_complete'' 4 (2 / 3) (- (1 / 3)),
                ?st ''75_percent_complete'' 4 (2 / 3) 0,
                ?st ''100_percent_complete'' 3 (1 / 2) (1 / 4)]"
  have d: "drop 1 (funnel_stages ?self) = ?pre @ ?s # ?post" by code_simp
  have pre: "\<forall>t \<in> set ?pre. drop_off_rate t < drop_off_rate ?s" by simp
  have post: "\<forall>t \<in> set ?post. drop_off_rate t \<le> drop_off_rate ?s" by simp
  have e: "length (funnel_stages funnel_init) \<le> 1" by (simp add: funnel_init_def)
  from biggest_drop_off_first_largest [of ?self ?pre ?s ?post] d pre post
  have "find_biggest_drop_off ?self = ''track_3_complete''" by simp
  moreover from biggest_drop_off_first_largest [of funnel_init] e
  have "find_biggest_drop_off funnel_init = ''unknown''" by blast
  ultimately show ?thesis by blast
qed

text \<open>
  Claim C6 as stated fails: for a user who passes every activation stage all counts are
  1 and all drop-off rates 0; the first stage with the largest rate after the first is
  \<open>first_session\<close>, and the code returns \<open>unknown\<close>.
\<close>

theorem biggest_drop_off_counterexample:
  "funnel_stages (snd (analyze_user_activation funnel_init
        [\<lparr>u_user_id = ''u1'', signup_date = 0, tier = ''free'', country = ''US'',
          age_group = ''18-24''\<rparr>]
        (map (\<lambda>t. \<lparr>session_id = ''s'', user_id = ''u1'', track_id = ''t1'', timestamp = t,
                   listen_duration_ms = 1000, track_duration_ms = 2000, skipped = False,
                   context_col = ''album'', device = ''mobile''\<rparr>)
             [0, 86400, 8 * 86400, 15 * 86400, 22 * 86400]))) \<noteq> []
   \<and> spec_biggest_drop_off (funnel_stages (snd (analyze_user_activation funnel_init
        [\<lparr>u_user_id = ''u1'', signup_date = 0, tier = ''free'', country = ''US'',
          age_group = ''18-24''\<rparr>]
        (map (\<lambda>t. \<lparr>session_id = ''s'', user_id = ''u1'', track_id = ''t1'', timestamp = t,
                   listen_duration_ms = 1000, track_duration_ms = 2000, skipped = False,
                   context_col = ''album'', device = ''mobile''\<rparr>)
             [0, 86400, 8 * 86400, 15 * 86400, 22 * 86400])))) = Some ''first_session''
   \<and> find_biggest_drop_off (snd (analyze_user_activation funnel_init
        [\<lparr>u_user_id = ''u1'', signup_date = 0, tier = ''free'', country = ''US'',
          age_group = ''18-24''\<rparr>]
        (map (\<lambda>t. \<lparr>session_id = ''s'', user_id = ''u1'', track_id = ''t1'', timestamp = t,
                   listen_duration_ms = 1000, track_duration_ms = 2000, skipped = False,
                   context_col = ''album'', device = ''mobile''\<rparr>)
             [0, 86400, 8 * 86400, 15 * 86400, 22 * 86400]))) = ''unknown''"
  by code_simp

lemma flag_loop_filter:
  "flag_loop fmt stages recs
     = recs @ map (high_drop_off_msg fmt) (filter (\<lambda>s. drop_off_rate s > 0.20) stages)"
  by (induction stages arbitrary: recs) auto

lemma tracks_3_5_note_length: "length (tracks_3_5_note fmt stages) \<le> 1"
  by (simp add: tracks_3_5_note_def Let_def split: option.splits)

text \<open>
  Claim C7, as the code has it, for an analyzer that holds a computed funnel. The result
  is the list of "High drop-off" flags of exactly the stages after the first whose
  \<open>drop_off_rate\<close> exceeds 0.20, in stage order, followed by at most one note on the
  drop-off between tracks 3 and 5 (present when the funnel has such stages and
  \<open>(users(track_3) - users(track_5)) / users(track_3)\<close> exceeds 0.15); the result is the
  single "healthy" message exactly when there is neither a flag nor that note.
\<close>

theorem recommendations_flags:
  assumes "funnel_data self = Some d" and "d \<noteq> []"
  shows "get_recommendations fmt self
           = (if filter (\<lambda>s. drop_off_rate s > 0.20) (drop 1 (funnel_stages self)) = []
                 \<and> tracks_3_5_note fmt (funnel_stages self) = []
              then [healthy_msg]
              else map (high_drop_off_msg fmt)
                     (filter (\<lambda>s. drop_off_rate s > 0.20) (drop 1 (funnel_stages self)))
                   @ tracks_3_5_note fmt (funnel_stages self))
       \<and> length (tracks_3_5_note fmt (funnel_stages self)) \<le> 1"
proof (intro conjI)
  from assms show "get_recommendations fmt self
           = (if filter (\<lambda>s. drop_off_rate s > 0.20) (drop 1 (funnel_stages self)) = []
                 \<and> tracks_3_5_note fmt (funnel_stages self) = []
              then [healthy_msg]
              else map (high_drop_off_msg fmt)
                     (filter (\<lambda>s. drop_off_rate s > 0.20) (drop 1 (funnel_stages self)))
                   @ tracks_3_5_note fmt (funnel_stages self))"
    by (simp add: get_recommendations_def Let_def flag_loop_filter)
  show "length (tracks_3_5_note fmt (funnel_stages self)) \<le> 1"
    by (rule tracks_3_5_note_length)
qed

theorem recommendations_flags_witness:
  "get_recommendations format_percent_1
     (snd (analyze_playlist_completion (\<lambda>n. [7, 2, 9, 4, 1, 6]) (\<lambda>vs n. replicate n 5)
        funnel_init
        (map (\<lambda>u. \<lparr>session_id = u, user_id = u, track_id = ''t'', timestamp = (0::int),
                   listen_duration_ms = 1000, track_duration_ms = 2000, skipped = False,
                   context_col = ''playlist'', device = ''mobile''\<rparr>)
             [''a'', ''b'', ''c'', ''d'', ''e'', ''f''])
        [''p'', ''p'', ''p'', ''p'', ''p'']))
   = [''High drop-off (33.3%) at '' @ [CHR 0x27] @ ''track_3_complete'' @ [CHR 0x27]
        @ ''. Consider optimizing this stage.'',
      ''High drop-off (25.0%) at '' @ [CHR 0x27] @ ''track_5_complete'' @ [CHR 0x27]
        @ ''. Consider optimizing this stage.'',
      ''High drop-off (25.0%) at '' @ [CHR 0x27] @ ''100_percent_complete'' @ [CHR 0x27]
        @ ''. Consider optimizing this stage.'',
      ''Significant drop-off (25.0%) between tracks 3-5. ''
        @ ''Consider improving track recommendations or playlist ordering.'']"
proof -
  let ?self = "snd (analyze_playlist_completion (\<lambda>n. [7, 2, 9, 4, 1, 6])
        (\<lambda>vs n. replicate n 5) funnel_init
        (map (\<lambda>u. \<lparr>session_id = u, user_id = u, track_id = ''t'', timestamp = (0::int),
                   listen_duration_ms = 1000, track_duration_ms = 2000, skipped = False,
                   context_col = ''playlist'', device = ''mobile''\<rparr>)
             [''a'', ''b'', ''c'', ''d'', ''e'', ''f''])
        [''p'', ''p'', ''p'', ''p'', ''p''])"
  have d: "funnel_data ?self = Some (funnel_stages ?self)" by code_simp
  have ne: "funnel_stages ?self \<noteq> []" by code_simp
  have v: "map (high_drop_off_msg format_percent_1)
             (filter (\<lambda>s. drop_off_rate s > 0.20) (drop 1 (funnel_stages ?self)))
           @ tracks_3_5_note format_percent_1 (funnel_stages ?self)
     = [''High drop-off (33.3%) at '' @ [CHR 0x27] @ ''track_3_complete'' @ [CHR 0x27]
        @ ''. Consider optimizing this stage.'',
      ''High drop-off (25.0%) at '' @ [CHR 0x27] @ ''track_5_complete'' @ [CHR 0x27]
        @ ''. Consider optimizing this stage.'',
      ''High drop-off (25.0%) at '' @ [CHR 0x27] @ ''100_percent_complete'' @ [CHR 0x27]
        @ ''. Consider optimizing this stage.'',
      ''Significant drop-off (25.0%) between tracks 3-5. ''
        @ ''Consider improving track recommendations or playlist ordering.'']"
    by code_simp
  from recommendations_flags [OF d ne, of format_percent_1] v show ?thesis
    by (simp split: if_splits)
qed

text \<open>
  Claim C7 as stated fails: in a playlist funnel with counts 6, 6, 6, 5, 6, 6, 5 no
  stage has a drop-off above 0.20, yet one of six users is lost between tracks 3 and 5
  (16.7%, above 0.15), and the result is that note instead of the "healthy" message.
\<close>

theorem recommendations_counterexample:
  "get_recommendations format_percent_1
     (snd (analyze_playlist_completion (\<lambda>n. [7, 5, 9, 4, 12, 6]) (\<lambda>vs n. replicate n 5)
        funnel_init
        (map (\<lambda>u. \<lparr>session_id = u, user_id = u, track_id = ''t'', timestamp = (0::int),
                   listen_duration_ms = 1000, track_duration_ms = 2000, skipped = False,
                   context_col = ''playlist'', device = ''mobile''\<rparr>)
             [''a'', ''b'', ''c'', ''d'', ''e'', ''f''])
        [''p'', ''p'', ''p'', ''p'', ''p'']))
     = [''Significant drop-off (16.7%) between tracks 3-5. ''
        @ ''Consider improving track recommendations or playlist ordering.'']
   \<and> list_all (\<lambda>s. \<not> drop_off_rate s > 0.20)
       (funnel_stages (snd (analyze_playlist_completion (\<lambda>n. [7, 5, 9, 4, 12, 6])
        (\<lambda>vs n. replicate n 5) funnel_init
        (map (\<lambda>u. \<lparr>session_id = u, user_id = u, track_id = ''t'', timestamp = (0::int),
                   listen_duration_ms = 1000, track_duration_ms = 2000, skipped = False,
                   context_col = ''playlist'', device = ''mobile''\<rparr>)
             [''a'', ''b'', ''c'', ''d'', ''e'', ''f''])
        [''p'', ''p'', ''p'', ''p'', ''p''])))
   \<and> get_recommendations format_percent_1
     (snd (analyze_playlist_completion (\<lambda>n. [7, 5, 9, 4, 12, 6]) (\<lambda>vs n. replicate n 5)
        funnel_init
        (map (\<lambda>u. \<lparr>session_id = u, user_id = u, track_id = ''t'', timestamp = (0::int),
                   listen_duration_ms = 1000, track_duration_ms = 2000, skipped = False,
                   context_col = ''playlist'', device = ''mobile''\<rparr>)
             [''a'', ''b'', ''c'', ''d'', ''e'', ''f''])
        [''p'', ''p'', ''p'', ''p'', ''p''])) \<noteq> [healthy_msg]"
  by code_simp

subsection \<open>Rows of the feature table, hour buckets, and the caller's sessions table\<close>

lemma set_groupby_keys: "set (map fst (groupby key rows)) = set (map key rows)"
  by (simp add: groupby_def comp_def)

lemma set_outer_keys: "set (outer_keys a b) = set a \<union> set b"
  by (simp add: outer_keys_def)

lemma distinct_outer_keys: "distinct (outer_keys a b)"
  by (simp add: outer_keys_def)

lemma set_merge_users: "set (map fst (merge_users keys users_df)) = set keys"
proof -
  have "\<And>k. set (map fst (case filter (\<lambda>u. u_user_id u = k) users_df of
                         [] \<Rightarrow> [(k, None)]
                       | us \<Rightarrow> map (\<lambda>u. (k, Some u)) us)) = {k}"
    by (auto split: list.splits)
  then show ?thesis
    by (induction keys) (simp_all add: merge_users_def)
qed

lemma merge_tracks_users:
  "set (map (\<lambda>(s, t). user_id s) (merge_tracks sessions tracks)) = set (map user_id sessions)"
proof (induction sessions)
  case Nil
  show ?case by (simp add: merge_tracks_def)
next
  case (Cons s sessions)
  have one: "set (map (\<lambda>(s, t). user_id s)
               (case filter (\<lambda>t. t_track_id t = track_id s) tracks of
                  [] \<Rightarrow> [(s, None)]
                | ts \<Rightarrow> map (\<lambda>t. (s, Some t)) ts)) = {user_id s}"
    by (cases "filter (\<lambda>t. t_track_id t = track_id s) tracks") (auto simp: comp_def)
  have "merge_tracks (s # sessions) tracks
          = (case filter (\<lambda>t. t_track_id t = track_id s) tracks of
                  [] \<Rightarrow> [(s, None)]
                | ts \<Rightarrow> map (\<lambda>t. (s, Some t)) ts) @ merge_tracks sessions tracks"
    by (simp add: merge_tracks_def)
  then have "set (map (\<lambda>(s, t). user_id s) (merge_tracks (s # sessions) tracks))
          = {user_id s} \<union> set (map (\<lambda>(s, t). user_id s) (merge_tracks sessions tracks))"
    using one by (simp only: map_append set_append)
  with Cons.IH show ?case by simp
qed

lemma genre_users_subset:
  "set (genre_diversity_users (merge_tracks sessions tracks)) \<subseteq> set (map user_id sessions)"
proof -
  have "set (genre_diversity_users (merge_tracks sessions tracks))
          \<subseteq> set (map (\<lambda>(s, t). user_id s) (merge_tracks sessions tracks))"
    by (auto simp: genre_diversity_users_def)
  then show ?thesis by (simp only: merge_tracks_users)
qed

lemma stamped_users:
  "map user_id (map (stamped parse)
       (if \<not> is_datetime64_any_dtype (map timestamp sessions0)
        then map (to_datetime parse) sessions0 else sessions0)) = map user_id sessions0"
  by (simp add: stamped_def to_datetime_def comp_def)

lemma feature_keys:
  fixes sessions :: "int session list"
  shows "set (outer_keys (outer_keys (outer_keys (outer_keys (outer_keys (outer_keys
      (map fst (create_listening_streak_features sessions))
      (genre_diversity_users (merge_tracks sessions tracks)))
      (map fst (create_playlist_behavior_features sessions)))
      (session_feature_users (merge_tracks sessions tracks)))
      (map fst (create_temporal_features sessions)))
      (audio_preference_users (merge_tracks sessions tracks)))
      (engagement_users sessions)) = set (map user_id sessions)"
proof -
  have a: "set (map fst (create_listening_streak_features sessions)) = set (map user_id sessions)"
    using set_groupby_keys [of user_id sessions]
    by (simp add: create_listening_streak_features_def comp_def case_prod_unfold)
  have b: "set (map fst (create_playlist_behavior_features sessions)) = set (map user_id sessions)"
    using set_groupby_keys [of user_id sessions]
    by (simp add: create_playlist_behavior_features_def comp_def case_prod_unfold Let_def)
  have c: "set (map fst (create_temporal_features sessions)) = set (map user_id sessions)"
    using set_groupby_keys [of user_id sessions]
    by (simp add: create_temporal_features_def comp_def case_prod_unfold)
  have d: "set (session_feature_users (merge_tracks sessions tracks)) = set (map user_id sessions)"
    unfolding session_feature_users_def set_groupby_keys by (rule merge_tracks_users)
  have e: "set (audio_preference_users (merge_tracks sessions tracks)) = set (map user_id sessions)"
    unfolding audio_preference_users_def set_groupby_keys by (rule merge_tracks_users)
  have f: "set (engagement_users sessions) = set (map user_id sessions)"
    unfolding engagement_users_def by (rule set_groupby_keys)
  from genre_users_subset [of sessions tracks] show ?thesis
    unfolding set_outer_keys a b c d e f by blast
qed

text \<open>
  The users of the feature table are the users of the sessions table: every group is
  computed from the sessions, and the users table only adds columns in a left merge.
\<close>

lemma feature_rows_users:
  "set (map f_user_id (snd (create_all_features parse sessions0 users_df tracks)))
     = set (map user_id sessions0)"
proof -
  let ?sessions = "map (stamped parse)
       (if \<not> is_datetime64_any_dtype (map timestamp sessions0)
        then map (to_datetime parse) sessions0 else sessions0)"
  let ?keys = "outer_keys (outer_keys (outer_keys (outer_keys (outer_keys (outer_keys
      (map fst (create_listening_streak_features ?sessions))
      (genre_diversity_users (merge_tracks ?sessions tracks)))
      (map fst (create_playlist_behavior_features ?sessions)))
      (session_feature_users (merge_tracks ?sessions tracks)))
      (map fst (create_temporal_features ?sessions)))
      (audio_preference_users (merge_tracks ?sessions tracks)))
      (engagement_users ?sessions)"
  have "map f_user_id (snd (create_all_features parse sessions0 users_df tracks))
          = map fst (merge_users ?keys users_df)"
    by (simp add: create_all_features_def Let_def comp_def case_prod_unfold)
  then have "set (map f_user_id (snd (create_all_features parse sessions0 users_df tracks)))
          = set ?keys" by (simp only: set_merge_users)
  also have "\<dots> = set (map user_id ?sessions)" by (rule feature_keys)
  also have "\<dots> = set (map user_id sessions0)" by (simp only: stamped_users)
  finally show ?thesis .
qed

text \<open>
  Claim C1 says that the feature table has one row per user of the users table,
  including users with zero sessions. At a users table with \<open>user_0\<close> and
  \<open>user_1\<close> and a sessions table with one session of \<open>user_0\<close>, the code returns
  the single row of \<open>user_0\<close>: one row for two users.
\<close>

theorem features_omit_users_without_sessions:
  "map f_user_id (snd (create_all_features parse
      [\<lparr>session_id = ''sess_0'', user_id = ''user_0'', track_id = ''track_0'',
        timestamp = TsStamp 1704088800, listen_duration_ms = 120000,
        track_duration_ms = 200000, skipped = False, context_col = ''playlist'',
        device = ''mobile''\<rparr>]
      [\<lparr>u_user_id = ''user_0'', signup_date = 1704067200, tier = ''free'', country = ''US'',
        age_group = ''18-24''\<rparr>,
       \<lparr>u_user_id = ''user_1'', signup_date = 1704067200, tier = ''premium'', country = ''UK'',
        age_group = ''25-34''\<rparr>]
      [\<lparr>t_track_id = ''track_0'', tempo = 120, energy = 0.5, danceability = 0.5,
        valence = 0.5, acousticness = 0.5, genre = Some ''pop'', duration_ms = 200000\<rparr>]))
     = [''user_0'']
   \<and> length [\<lparr>u_user_id = ''user_0'', signup_date = 1704067200, tier = ''free'',
                country = ''US'', age_group = ''18-24''\<rparr>,
              \<lparr>u_user_id = ''user_1'', signup_date = 1704067200, tier = ''premium'',
                country = ''UK'', age_group = ''25-34''\<rparr>] = 2"
  by code_simp

text \<open>
  Claim C3 says that hour 6 is counted in the morning bucket, hour 12 in the afternoon
  and hour 18 in the evening. The code's \<open>pd.cut\<close> intervals are closed on the right:
  hour 6 falls in \<open>night\<close>, hour 12 in \<open>morning\<close>, hour 18 in \<open>afternoon\<close>, while
  the sibling flags of the same module put hour 6 in the morning and hour 18 in the
  evening. A user whose only session is at 06:00 gets \<open>night_ratio = 1\<close> and
  \<open>morning_ratio = 0\<close>.
\<close>

theorem temporal_bucket_boundaries:
  "time_bucket 6 = Some night \<and> time_bucket 12 = Some morning \<and> time_bucket 18 = Some afternoon
   \<and> is_morning 6 \<and> is_evening 18
   \<and> map (\<lambda>(u, f). (u, night_ratio f, morning_ratio f))
       (create_temporal_features
          [\<lparr>session_id = ''sess_0'', user_id = ''user_0'', track_id = ''track_0'',
            timestamp = 1704088800, listen_duration_ms = 120000,
            track_duration_ms = 200000, skipped = False, context_col = ''playlist'',
            device = ''mobile''\<rparr>])
     = [(''user_0'', 1, 0)]
   \<and> hour_of 1704088800 = 6"
  by code_simp

text \<open>
  Claim C4 says that the caller's sessions table is unchanged after
  \<open>create_all_features\<close>. At a sessions table whose timestamp column holds texts, the
  table after the call holds parsed timestamps in that column: it differs from the table
  passed in.
\<close>

theorem create_all_features_writes_timestamp:
  "fst (create_all_features parse
      [\<lparr>session_id = ''sess_0'', user_id = ''user_0'', track_id = ''track_0'',
        timestamp = TsText ''2024-01-01 06:00:00'', listen_duration_ms = 120000,
        track_duration_ms = 200000, skipped = False, context_col = ''playlist'',
        device = ''mobile''\<rparr>] users_df tracks)
     = [\<lparr>session_id = ''sess_0'', user_id = ''user_0'', track_id = ''track_0'',
        timestamp = TsStamp (parse ''2024-01-01 06:00:00''), listen_duration_ms = 120000,
        track_duration_ms = 200000, skipped = False, context_col = ''playlist'',
        device = ''mobile''\<rparr>]
   \<and> fst (create_all_features parse
      [\<lparr>session_id = ''sess_0'', user_id = ''user_0'', track_id = ''track_0'',
        timestamp = TsText ''2024-01-01 06:00:00'', listen_duration_ms = 120000,
        track_duration_ms = 200000, skipped = False, context_col = ''playlist'',
        device = ''mobile''\<rparr>] users_df tracks)
     \<noteq> [\<lparr>session_id = ''sess_0'', user_id = ''user_0'', track_id = ''track_0'',
        timestamp = TsText ''2024-01-01 06:00:00'', listen_duration_ms = 120000,
        track_duration_ms = 200000, skipped = False, context_col = ''playlist'',
        device = ''mobile''\<rparr>]"
  by (simp add: create_all_features_def Let_def is_datetime64_any_dtype_def to_datetime_def)

text \<open>
  When the column holds timestamps already, the table is left as it is.
\<close>

lemma create_all_features_keeps_datetime:
  "is_datetime64_any_dtype (map timestamp sessions0) \<Longrightarrow>
   fst (create_all_features parse sessions0 users_df tracks) = sessions0"
  by (simp add: create_all_features_def Let_def)

lemma length_merge_users_distinct:
  assumes "distinct (map u_user_id users_df)"
  shows "length (merge_users keys users_df) = length keys"
proof -
  have one: "length (case filter (\<lambda>u. u_user_id u = k) users_df of
                         [] \<Rightarrow> [(k, None)]
                       | us \<Rightarrow> map (\<lambda>u. (k, Some u)) us) = 1" for k
  proof -
    have "distinct (map u_user_id (filter (\<lambda>u. u_user_id u = k) users_df))"
      using assms by (rule distinct_map_filter)
    moreover have "set (map u_user_id (filter (\<lambda>u. u_user_id u = k) users_df)) \<subseteq> {k}"
      by auto
    ultimately have "length (map u_user_id (filter (\<lambda>u. u_user_id u = k) users_df)) \<le> card {k}"
      by (metis distinct_card card_mono finite.emptyI finite.insertI)
    then have "length (filter (\<lambda>u. u_user_id u = k) users_df) \<le> 1" by simp
    then show ?thesis
      by (cases "filter (\<lambda>u. u_user_id u = k) users_df") auto
  qed
  show ?thesis
    by (induction keys) (simp_all add: merge_users_def one)
qed

text \<open>
  With distinct user ids in the users table, the number of feature rows is the number of
  distinct users of the sessions table, whatever the users table holds.
\<close>

lemma feature_row_count:
  assumes "distinct (map u_user_id users_df)"
  shows "length (snd (create_all_features parse sessions0 users_df tracks))
           = card (set (map user_id sessions0))"
proof -
  let ?rows = "snd (create_all_features parse sessions0 users_df tracks)"
  let ?sessions = "map (stamped parse)
       (if \<not> is_datetime64_any_dtype (map timestamp sessions0)
        then map (to_datetime parse) sessions0 else sessions0)"
  let ?keys = "outer_keys (outer_keys (outer_keys (outer_keys (outer_keys (outer_keys
      (map fst (create_listening_streak_features ?sessions))
      (genre_diversity_users (merge_tracks ?sessions tracks)))
      (map fst (create_playlist_behavior_features ?sessions)))
      (session_feature_users (merge_tracks ?sessions tracks)))
      (map fst (create_temporal_features ?sessions)))
      (audio_preference_users (merge_tracks ?sessions tracks)))
      (engagement_users ?sessions)"
  have "length ?rows = length (merge_users ?keys users_df)"
    by (simp add: create_all_features_def Let_def)
  also have "\<dots> = length ?keys" using assms by (rule length_merge_users_distinct)
  also have "\<dots> = card (set ?keys)"
    using distinct_outer_keys by (simp add: distinct_card)
  also have "set ?keys = set (map user_id ?sessions)" by (rule feature_keys)
  also have "map user_id ?sessions = map user_id sessions0" by (rule stamped_users)
  finally show ?thesis .
qed

end
